theory Spec2Isabelle
  imports Complex_Main
begin

section \<open>Numbers\<close>

text \<open>
  A JavaScript number is an IEEE-754 double. A finite double is modelled by the real
  it is equal to, and \<open>binary64 x\<close> is the double nearest to the real \<open>x\<close>: with
  \<open>e\<close> the binary exponent of \<open>\<bar>x\<bar>\<close>, not below \<open>-1022\<close> (the subnormal range),
  \<open>\<bar>x\<bar>\<close> is rounded to a multiple of \<open>2\<^sup>e\<^sup>-\<^sup>5\<^sup>2\<close>, a tie going to the even
  multiple. Zero has no sign here; the program never tells \<^verbatim>\<open>-0\<close> from \<^verbatim>\<open>0\<close>, and
  JSON writes both as \<^verbatim>\<open>0\<close>.
\<close>

definition pow2 :: "int \<Rightarrow> real" where
  "pow2 k = (if k \<ge> 0 then 2 ^ nat k else 1 / 2 ^ nat (- k))"

text \<open>
  The binary exponent of a positive real: how often it is halved until it is below 2,
  or doubled until it is at least 1, the latter at most 1022 times.
\<close>

fun halvings :: "nat \<Rightarrow> real \<Rightarrow> int" where
  "halvings n x = (if n = 0 \<or> x < 2 then 0 else 1 + halvings (n - 1) (x / 2))"

fun doublings :: "nat \<Rightarrow> real \<Rightarrow> int" where
  "doublings n x = (if n = 0 \<or> 1 \<le> x then 0 else 1 + doublings (n - 1) (x * 2))"

declare halvings.simps [simp del] doublings.simps [simp del]

definition exponent :: "real \<Rightarrow> int" where
  "exponent x = (if 1 \<le> x then halvings 1024 x else - doublings 1022 x)"

definition round_even :: "real \<Rightarrow> int" where
  "round_even m =
     (let f = \<lfloor>m\<rfloor>; d = m - of_int f in
      if d < 1 / 2 then f else if 1 / 2 < d then f + 1 else if even f then f else f + 1)"

definition binary64 :: "real \<Rightarrow> real" where
  "binary64 x =
     (if x = 0 then 0
      else let q = pow2 (exponent \<bar>x\<bar> - 52) in
           (if x < 0 then - 1 else 1) * of_int (round_even (\<bar>x\<bar> / q)) * q)"

text \<open>
  The result of an operation: the double nearest to the exact result \<open>x\<close>, or an
  infinity when \<open>x\<close> rounds beyond the largest double \<open>2\<^sup>1\<^sup>0\<^sup>2\<^sup>4 - 2\<^sup>9\<^sup>7\<^sup>1\<close>, that is
  from \<open>2\<^sup>1\<^sup>0\<^sup>2\<^sup>4 - 2\<^sup>9\<^sup>7\<^sup>0\<close> on. The operations of this program give no \<^verbatim>\<open>NaN\<close>:
  it multiplies two finite numbers.
\<close>

datatype number = Fin real | PosInfinity | NegInfinity

definition to_number :: "real \<Rightarrow> number" where
  "to_number x =
     (if 2 ^ 1024 - 2 ^ 970 \<le> x then PosInfinity
      else if x \<le> - (2 ^ 1024 - 2 ^ 970) then NegInfinity
      else Fin (binary64 x))"

text \<open>
  The product \<^verbatim>\<open>a * b\<close> of two numbers, each given by a real that stands for the
  double nearest to it.
\<close>

definition js_times :: "real \<Rightarrow> real \<Rightarrow> number" where
  "js_times a b = to_number (binary64 a * binary64 b)"

section \<open>JavaScript values\<close>

text \<open>
  The values that flow through \<^verbatim>\<open>api/convert.js\<close>: parsed JSON payloads, query
  strings and the objects handed to \<^verbatim>\<open>res.json\<close>. An object is the table of its own
  properties in enumeration order. A number \<open>JNum x\<close> is the finite double nearest to
  \<open>x\<close>, which is how a numeric literal of the program or of a JSON text denotes its
  number (\<open>JNum 0.85\<close> is the double that \<^verbatim>\<open>0.85\<close> denotes and that JSON writes
  \<^verbatim>\<open>0.85\<close>); arithmetic rounds \<open>x\<close> first. A payload holds no \<^verbatim>\<open>NaN\<close> and no
  infinity. \<open>JIso t\<close> stands for the string \<^verbatim>\<open>new Date(t).toISOString()\<close>. A
  character is a code unit below 256.
\<close>

datatype jsval =
    JUndefined
  | JNull
  | JBool bool
  | JNum real
  | JStr string
  | JIso int
  | JArr "jsval list"
  | JObj "(string \<times> jsval) list"

text \<open>Truthiness, as \<^verbatim>\<open>!x\<close> and \<^verbatim>\<open>x && ...\<close> test it.\<close>

fun truthy :: "jsval \<Rightarrow> bool" where
  "truthy JUndefined = False"
| "truthy JNull = False"
| "truthy (JBool b) = b"
| "truthy (JNum x) = (binary64 x \<noteq> 0)"
| "truthy (JStr s) = (s \<noteq> [])"
| "truthy (JIso t) = True"
| "truthy (JArr xs) = True"
| "truthy (JObj kvs) = True"

text \<open>
  Property read \<^verbatim>\<open>v?.[k]\<close>. The keys read in this program (\<^verbatim>\<open>result\<close>,
  \<^verbatim>\<open>conversion_rates\<close>, \<^verbatim>\<open>time_last_update_utc\<close> and whitelisted currency codes)
  are no built-in property of a string, an array, a number or a boolean, so the read
  gives \<^verbatim>\<open>undefined\<close> on everything but an object that has the key.
\<close>

fun jsprop :: "jsval \<Rightarrow> string \<Rightarrow> jsval" where
  "jsprop (JObj kvs) k = (case map_of kvs k of Some v \<Rightarrow> v | None \<Rightarrow> JUndefined)"
| "jsprop v k = JUndefined"

text \<open>\<^verbatim>\<open>typeof v === 'number'\<close>\<close>

fun typeof_number :: "jsval \<Rightarrow> bool" where
  "typeof_number (JNum x) = True"
| "typeof_number v = False"

fun num_of :: "jsval \<Rightarrow> real" where
  "num_of (JNum x) = x"
| "num_of v = 0"

section \<open>Strings\<close>

definition is_digit :: "char \<Rightarrow> bool" where
  "is_digit c \<longleftrightarrow> c \<in> set ''0123456789''"

definition is_upper :: "char \<Rightarrow> bool" where
  "is_upper c \<longleftrightarrow> c \<in> set ''ABCDEFGHIJKLMNOPQRSTUVWXYZ''"

text \<open>
  \<^verbatim>\<open>String.prototype.toUpperCase\<close> on code units below 256: the ASCII letters, and
  the sharp s, which becomes two letters. The upper-case form of any other character
  is not among \<^verbatim>\<open>A-Z\<close>; the model leaves such a character as it is, which the
  tests of this program (the currency pattern, the whitelist, the comparison with
  \<^verbatim>\<open>GET\<close>) cannot tell from its upper-case form.
\<close>

definition upper_char :: "char \<Rightarrow> string" where
  "upper_char c =
     (case map_of (zip ''abcdefghijklmnopqrstuvwxyz'' ''ABCDEFGHIJKLMNOPQRSTUVWXYZ'') c of
        Some u \<Rightarrow> [u]
      | None \<Rightarrow> if c = CHR 0xDF then ''SS'' else [c])"

definition toUpperCase :: "string \<Rightarrow> string" where
  "toUpperCase s = concat (map upper_char s)"

text \<open>\<^verbatim>\<open>String.prototype.trim\<close>: white space and line terminators below 256.\<close>

definition is_space :: "char \<Rightarrow> bool" where
  "is_space c \<longleftrightarrow> c \<in> {CHR 0x09, CHR 0x0A, CHR 0x0B, CHR 0x0C, CHR 0x0D, CHR 0x20, CHR 0xA0}"

definition trim :: "string \<Rightarrow> string" where
  "trim s = rev (dropWhile is_space (rev (dropWhile is_space s)))"

text \<open>\<^verbatim>\<open>s.split(d)\<close> for a one-character separator.\<close>

fun split_on :: "char \<Rightarrow> string \<Rightarrow> string list" where
  "split_on d [] = [[]]"
| "split_on d (c # cs) =
     (if c = d then [] # split_on d cs
      else (case split_on d cs of p # ps \<Rightarrow> (c # p) # ps | [] \<Rightarrow> [[c]]))"

text \<open>Decimal rendering of a number, as a template literal interpolates it.\<close>

fun showNat :: "nat \<Rightarrow> string" where
  "showNat n =
     (if n < 10 then [''0123456789'' ! n]
      else showNat (n div 10) @ [''0123456789'' ! (n mod 10)])"

declare showNat.simps [simp del]

text \<open>\<^verbatim>\<open>/needle/.test(s)\<close> for a literal needle: does it occur anywhere in \<open>s\<close>.\<close>

fun occurs_where :: "(string \<Rightarrow> bool) \<Rightarrow> string \<Rightarrow> bool" where
  "occurs_where p [] = p []"
| "occurs_where p (c # cs) = (p (c # cs) \<or> occurs_where p cs)"

section \<open>Query validation\<close>

text \<open>
  \<^verbatim>\<open>req.query\<close> is the list of its parameters in the order \<^verbatim>\<open>Object.keys\<close>
  enumerates them, each with a string value (a parameter that is not repeated).
\<close>

type_synonym query = "(string \<times> string) list"

definition ALLOWED_QUERY_PARAMS :: "string list" where
  "ALLOWED_QUERY_PARAMS = [''from'', ''to'', ''amount'']"

definition ALLOWED_CURRENCIES :: "string list" where
  "ALLOWED_CURRENCIES =
     [''USD'', ''EUR'', ''GBP'', ''JPY'', ''AUD'', ''CAD'', ''CHF'', ''CNY'', ''HKD'', ''NZD'',
      ''SEK'', ''KRW'', ''SGD'', ''NOK'', ''MXN'', ''INR'', ''RUB'', ''BRL'', ''ZAR'', ''TRY'',
      ''DKK'', ''PLN'', ''THB'', ''MYR'', ''IDR'', ''HUF'', ''CZK'', ''ILS'', ''PHP'', ''CLP'',
      ''AED'', ''SAR'', ''COP'', ''ARS'', ''VND'', ''EGP'', ''NGN'', ''KZT'', ''PKR'', ''BDT'']"

definition MAX_AMOUNT :: real where
  "MAX_AMOUNT = 10 ^ 12"

definition MAX_DECIMALS :: nat where
  "MAX_DECIMALS = 8"

text \<open>\<^verbatim>\<open>ISO_CURRENCY_REGEX = /^[A-Z]{3}$/\<close>\<close>

definition ISO_CURRENCY_REGEX :: "string \<Rightarrow> bool" where
  "ISO_CURRENCY_REGEX s \<longleftrightarrow> length s = 3 \<and> list_all is_upper s"

text \<open>The amount pattern \<^verbatim>\<open>/^[+-]?\d+(?:\.\d+)?$/\<close>.\<close>

definition strip_sign :: "string \<Rightarrow> string" where
  "strip_sign s =
     (case s of [] \<Rightarrow> [] | c # cs \<Rightarrow> if c = CHR ''+'' \<or> c = CHR ''-'' then cs else s)"

definition plain_decimal :: "string \<Rightarrow> bool" where
  "plain_decimal s =
     (let u = strip_sign s in
      takeWhile is_digit u \<noteq> [] \<and>
      (case dropWhile is_digit u of
         [] \<Rightarrow> True
       | c # fs \<Rightarrow> c = CHR ''.'' \<and> fs \<noteq> [] \<and> list_all is_digit fs))"

text \<open>
  \<^verbatim>\<open>Number(rawAmt)\<close> on a string that matches the amount pattern. \<open>literal_value\<close>
  is the value of the decimal literal as written; the number is the double nearest to
  it, whatever the count of its digits, or an infinity.
\<close>

definition digits_val :: "string \<Rightarrow> nat" where
  "digits_val ds = foldl (\<lambda>a c. 10 * a + (of_char c - 48)) 0 ds"

definition literal_value :: "string \<Rightarrow> real" where
  "literal_value s =
     (let u = strip_sign s;
          ip = takeWhile is_digit u;
          fp = drop 1 (dropWhile is_digit u)
      in (if take 1 s = ''-'' then - 1 else 1) *
         (real (digits_val ip) + real (digits_val fp) / 10 ^ length fp))"

definition toNumber :: "string \<Rightarrow> number" where
  "toNumber s = to_number (literal_value s)"

text \<open>The messages of the validator, in the order of its checks.\<close>

definition ERR_UNEXPECTED :: "string \<Rightarrow> string" where
  "ERR_UNEXPECTED k = ''Unexpected parameter '' @ [CHR 0x27] @ k @ [CHR 0x27] @ ''.''"

definition ERR_MISSING :: string where
  "ERR_MISSING = ''Missing required query parameters \"from\" and \"to\".''"

definition ERR_FORMAT :: string where
  "ERR_FORMAT = ''Currency codes must be 3-letter ISO codes (A-Z).''"

definition ERR_UNSUPPORTED :: string where
  "ERR_UNSUPPORTED = ''Currency not supported. Use a standard ISO 4217 currency code.''"

definition ERR_EMPTY :: string where
  "ERR_EMPTY = ''If provided, \"amount\" must not be empty.''"

definition ERR_PLAIN :: string where
  "ERR_PLAIN = ''\"amount\" must be a plain decimal number without exponent.''"

definition ERR_NUMERIC :: string where
  "ERR_NUMERIC = ''Invalid numeric value for \"amount\".''"

definition ERR_RANGE :: string where
  "ERR_RANGE = ''\"amount\" is out of allowed range.''"

definition ERR_NEGATIVE :: string where
  "ERR_NEGATIVE = ''\"amount\" must be zero or a positive value.''"

definition ERR_DECIMALS :: string where
  "ERR_DECIMALS =
     ''\"amount\" may have at most '' @ showNat MAX_DECIMALS @ '' decimal places.''"

text \<open>
  The result \<^verbatim>\<open>{ ok: false, error }\<close> or \<^verbatim>\<open>{ ok: true, from, to, amount }\<close>; an
  amount of \<open>None\<close> is \<^verbatim>\<open>null\<close>.
\<close>

datatype validation =
    Invalid string
  | Valid string string "real option"

text \<open>\<^verbatim>\<open>String(x)\<close> of a query parameter that may be missing.\<close>

definition String_of :: "string option \<Rightarrow> string" where
  "String_of x = (case x of None \<Rightarrow> ''undefined'' | Some s \<Rightarrow> s)"

text \<open>
  The amount block of \<^verbatim>\<open>validateAndNormalizeQuery\<close> (its lines 74 to 95). The test
  \<^verbatim>\<open>!Number.isFinite(num) || Number.isNaN(num)\<close> holds of the two infinities; the
  comparisons that follow are made on the double \<^verbatim>\<open>num\<close>.
\<close>

definition validateAmount :: "string \<Rightarrow> string + real" where
  "validateAmount raw =
     (let rawAmt = trim raw in
      if length rawAmt = 0 then Inl ERR_EMPTY
      else if \<not> plain_decimal rawAmt then Inl ERR_PLAIN
      else
        (case toNumber rawAmt of
           PosInfinity \<Rightarrow> Inl ERR_NUMERIC
         | NegInfinity \<Rightarrow> Inl ERR_NUMERIC
         | Fin num \<Rightarrow>
             if \<bar>num\<bar> > MAX_AMOUNT then Inl ERR_RANGE
             else if num < 0 then Inl ERR_NEGATIVE
             else
               (case split_on (CHR ''.'') rawAmt of
                  p0 # p1 # ps \<Rightarrow>
                    if p1 \<noteq> [] \<and> length p1 > MAX_DECIMALS then Inl ERR_DECIMALS else Inr num
                | ps \<Rightarrow> Inr num)))"

definition validateAndNormalizeQuery :: "query \<Rightarrow> validation" where
  "validateAndNormalizeQuery q =
     (case find (\<lambda>k. k \<notin> set ALLOWED_QUERY_PARAMS) (map fst q) of
        Some k \<Rightarrow> Invalid (ERR_UNEXPECTED k)
      | None \<Rightarrow>
          let rawFrom = map_of q ''from''; rawTo = map_of q ''to'' in
          if rawFrom \<in> {None, Some []} \<or> rawTo \<in> {None, Some []} then Invalid ERR_MISSING
          else
            let from = toUpperCase (String_of rawFrom); to = toUpperCase (String_of rawTo) in
            if \<not> ISO_CURRENCY_REGEX from \<or> \<not> ISO_CURRENCY_REGEX to then Invalid ERR_FORMAT
            else if from \<notin> set ALLOWED_CURRENCIES \<or> to \<notin> set ALLOWED_CURRENCIES
              then Invalid ERR_UNSUPPORTED
            else
              (case map_of q ''amount'' of
                 None \<Rightarrow> Valid from to None
               | Some raw \<Rightarrow>
                   (case validateAmount raw of
                      Inl e \<Rightarrow> Invalid e
                    | Inr num \<Rightarrow> Valid from to (Some num))))"

section \<open>The fallback table\<close>

text \<open>
  \<^verbatim>\<open>utils/fallbackRates.js\<close>. Each rate is written as in the source and stands for the
  double that its literal denotes.
\<close>

definition FALLBACK_RATES :: "(string \<times> (string \<times> real) list) list" where
  "FALLBACK_RATES =
     [(''USD'', [(''EUR'', 0.85), (''GBP'', 0.73), (''JPY'', 110.0), (''CAD'', 1.25),
                 (''AUD'', 1.35), (''CHF'', 0.92), (''CNY'', 6.45), (''INR'', 75.0),
                 (''BRL'', 5.2), (''PHP'', 58.2), (''KRW'', 1340), (''MXN'', 17.2)]),
      (''EUR'', [(''USD'', 1.18), (''GBP'', 0.86), (''JPY'', 129.0), (''CAD'', 1.47),
                 (''AUD'', 1.59), (''CHF'', 1.08), (''CNY'', 7.59), (''INR'', 88.0),
                 (''BRL'', 6.1), (''PHP'', 63.5)]),
      (''PHP'', [(''USD'', 0.017), (''EUR'', 0.016), (''JPY'', 1.9), (''GBP'', 0.014),
                 (''AUD'', 0.023)]),
      (''JPY'', [(''USD'', 0.0091), (''EUR'', 0.0077), (''GBP'', 0.0067), (''PHP'', 0.53),
                 (''INR'', 0.68)])]"

record fallback_rate =
  rate :: real
  lastUpdated :: jsval
  defaulted :: bool

text \<open>\<open>now\<close> is the clock that \<^verbatim>\<open>new Date()\<close> reads.\<close>

definition getFallbackRate :: "int \<Rightarrow> string \<Rightarrow> string \<Rightarrow> fallback_rate" where
  "getFallbackRate now fromCurrency toCurrency =
     (let base = map_of FALLBACK_RATES fromCurrency;
          entry = (case base of None \<Rightarrow> None | Some b \<Rightarrow> map_of b toCurrency);
          hasRate = (entry \<noteq> None);
          rate = (case entry of Some r \<Rightarrow> r | None \<Rightarrow> 1.0)
      in \<lparr>rate = rate, lastUpdated = JIso now, defaulted = \<not> hasRate\<rparr>)"

section \<open>The rate cache\<close>

text \<open>
  The module-level \<^verbatim>\<open>Map\<close> from key to \<^verbatim>\<open>{ ts, data }\<close>. The functions take the
  map and the reading of \<^verbatim>\<open>Date.now()\<close> and return the map they leave behind;
  \<open>None\<close> is the \<^verbatim>\<open>null\<close> that \<^verbatim>\<open>readFromCache\<close> returns.
\<close>

record entry =
  ts :: int
  data :: jsval

type_synonym cache = "string \<rightharpoonup> entry"

definition getCacheKey :: "string \<Rightarrow> string" where
  "getCacheKey fromCurrency = ''latest:'' @ fromCurrency"

definition readFromCache :: "int \<Rightarrow> int \<Rightarrow> cache \<Rightarrow> string \<Rightarrow> jsval option \<times> cache" where
  "readFromCache ttl now c fromCurrency =
     (let key = getCacheKey fromCurrency in
      case c key of
        None \<Rightarrow> (None, c)
      | Some e \<Rightarrow>
          if now - ts e > ttl then (None, c(key := None))
          else (Some (data e), c))"

definition writeToCache :: "int \<Rightarrow> cache \<Rightarrow> string \<Rightarrow> jsval \<Rightarrow> cache" where
  "writeToCache now c fromCurrency d =
     c(getCacheKey fromCurrency \<mapsto> \<lparr>ts = now, data = d\<rparr>)"

section \<open>The upstream fetcher\<close>

text \<open>
  What the handler does to the outside, in order: reads and writes of the cache, calls
  of \<^verbatim>\<open>fetchWithTimeout\<close> (with the attempt index), backoff sleeps (in ms) and console
  output (level, message, fields). Fields for which the model has no value (the status
  text and the body of a response, the keys of a payload, the raw query) are left out.
\<close>

datatype event =
    CacheRead string
  | CacheWrite string
  | UpstreamCall nat
  | Sleep nat
  | Console string string "(string \<times> jsval) list"

datatype js_error = JsError (err_name: string) (err_message: string)

text \<open>The events that write the cache, and those that touch the cache or the network.\<close>

fun is_write :: "event \<Rightarrow> bool" where
  "is_write (CacheWrite k) = True"
| "is_write ev = False"

fun is_access :: "event \<Rightarrow> bool" where
  "is_access (CacheRead k) = True"
| "is_access (CacheWrite k) = True"
| "is_access (UpstreamCall n) = True"
| "is_access ev = False"

text \<open>
  One call of \<^verbatim>\<open>fetchWithTimeout\<close>: it throws (an \<^verbatim>\<open>AbortError\<close> when the timer
  fires, another error when the network fails) or gives a response with a status; the
  second component is what \<^verbatim>\<open>res.json()\<close> gives for that response, a parsed value or
  an error.
\<close>

datatype attempt =
    Rejects js_error
  | Responds nat "js_error + jsval"

record config =
  CACHE_TTL :: int
  TIMEOUT_MS :: int
  RETRIES :: int

definition res_ok :: "nat \<Rightarrow> bool" where
  "res_ok st \<longleftrightarrow> 200 \<le> st \<and> st \<le> 299"

text \<open>How the \<^verbatim>\<open>try\<close> block of one loop iteration ends.\<close>

datatype outcome =
    Returned jsval
  | Thrown js_error
  | Completed

definition try_block :: "int \<Rightarrow> nat \<Rightarrow> attempt \<Rightarrow> outcome" where
  "try_block retries n a =
     (case a of
        Rejects err \<Rightarrow> Thrown err
      | Responds st json \<Rightarrow>
          if \<not> res_ok st then
            (let retryable = (st \<ge> 500 \<or> st = 429) in
             if \<not> retryable \<or> int n = retries
             then Thrown (JsError ''Error'' (''Upstream status '' @ showNat st))
             else Completed)
          else
            (case json of
               Inl err \<Rightarrow> Thrown err
             | Inr d \<Rightarrow>
                 if jsprop d ''result'' \<noteq> JStr ''success'' \<or> \<not> truthy (jsprop d ''conversion_rates'')
                 then Thrown (JsError ''Error'' ''Unexpected upstream payload'')
                 else Returned d))"

text \<open>\<^verbatim>\<open>(err && err.message) || String(err)\<close> for an error object.\<close>

definition error_msg :: "js_error \<Rightarrow> string" where
  "error_msg err = (if err_message err \<noteq> [] then err_message err else err_name err)"

text \<open>\<^verbatim>\<open>/status (5\d\d|429)/.test(msg)\<close> and \<^verbatim>\<open>/Unexpected upstream payload/.test(msg)\<close>\<close>

definition status_re :: "string \<Rightarrow> bool" where
  "status_re msg =
     occurs_where (\<lambda>t. take 7 t = ''status '' \<and>
        (case drop 7 t of
           a # b # c # r \<Rightarrow> (a = CHR ''5'' \<and> is_digit b \<and> is_digit c) \<or> [a, b, c] = ''429''
         | r \<Rightarrow> False)) msg"

definition payload_re :: "string \<Rightarrow> bool" where
  "payload_re msg = occurs_where (\<lambda>t. take 27 t = ''Unexpected upstream payload'') msg"

definition catch_retryable :: "js_error \<Rightarrow> bool" where
  "catch_retryable err =
     (let msg = error_msg err; isAbort = (err_name err = ''AbortError'')
      in isAbort \<or> status_re msg \<or> payload_re msg)"

definition non_ok_log :: "attempt \<Rightarrow> event list" where
  "non_ok_log a =
     (case a of
        Responds st json \<Rightarrow>
          if \<not> res_ok st then [Console ''error'' ''Upstream non-OK'' [(''status'', JNum (real st))]]
          else []
      | Rejects err \<Rightarrow> [])"

text \<open>
  The \<^verbatim>\<open>while\<close> loop of \<^verbatim>\<open>fetchRates\<close>, from \<open>attempt\<close> on, with \<open>lastErr\<close> and the
  events so far. \<open>up n\<close> is what the network does at attempt \<open>n\<close>.
\<close>

function fetchRates_loop ::
  "config \<Rightarrow> (nat \<Rightarrow> attempt) \<Rightarrow> nat \<Rightarrow> js_error option \<Rightarrow> event list
     \<Rightarrow> (js_error + jsval) \<times> event list" where
  "fetchRates_loop cfg up attempt lastErr tr =
     (if int attempt \<le> RETRIES cfg then
        (let tr1 = tr @ [UpstreamCall attempt] @ non_ok_log (up attempt) in
         case try_block (RETRIES cfg) attempt (up attempt) of
           Returned d \<Rightarrow> (Inr d, tr1)
         | Completed \<Rightarrow> fetchRates_loop cfg up (attempt + 1) lastErr tr1
         | Thrown err \<Rightarrow>
             if \<not> catch_retryable err \<or> int attempt = RETRIES cfg
             then (Inl err, tr1)
             else fetchRates_loop cfg up (attempt + 1) (Some err)
                    (tr1 @ [Sleep (200 * 2 ^ attempt)]))
      else
        (Inl (case lastErr of
                Some err \<Rightarrow> err
              | None \<Rightarrow> JsError ''Error'' ''Upstream fetch failed''), tr))"
  by pat_completeness auto
termination
  by (relation "measure (\<lambda>(cfg, up, attempt, lastErr, tr). nat (RETRIES cfg + 1 - int attempt))")
     auto

declare fetchRates_loop.simps [simp del]

definition fetchRates :: "config \<Rightarrow> (nat \<Rightarrow> attempt) \<Rightarrow> (js_error + jsval) \<times> event list" where
  "fetchRates cfg up = fetchRates_loop cfg up 0 None []"

section \<open>The handler\<close>

text \<open>
  A request is its method and its query. The surroundings of one run of the handler:
  the credential in the environment, the clock when the fallback rate is looked up
  (\<open>now0\<close>), when the cache is first read (\<open>now1\<close>) and when \<^verbatim>\<open>fetchRates\<close> has
  settled (\<open>now2\<close>), what the network does at each attempt, and what the handlers of
  other requests do to the shared cache while this one awaits \<^verbatim>\<open>fetchRates\<close>.
\<close>

record request =
  req_method :: "string option"
  req_query :: query

record world =
  apiKey :: "string option"
  now0 :: int
  now1 :: int
  now2 :: int
  upstream :: "nat \<Rightarrow> attempt"
  concurrent :: "cache \<Rightarrow> cache"

text \<open>
  The status and the object given to \<^verbatim>\<open>res.status(...).json(...)\<close>. A converted
  amount that is an infinity is shown as \<^verbatim>\<open>res.json\<close> writes it, \<^verbatim>\<open>null\<close>.
\<close>

record response =
  res_status :: nat
  res_body :: "(string \<times> jsval) list"

definition failure :: "nat \<Rightarrow> string \<Rightarrow> response" where
  "failure st msg =
     \<lparr>res_status = st, res_body = [(''success'', JBool False), (''error'', JStr msg)]\<rparr>"

definition success ::
  "jsval \<Rightarrow> jsval \<Rightarrow> string \<Rightarrow> string \<Rightarrow> jsval \<Rightarrow> string \<Rightarrow> response" where
  "success r convertedAmount fromCurrency toCurrency updated source =
     \<lparr>res_status = 200,
      res_body = [(''success'', JBool True), (''rate'', r),
                  (''convertedAmount'', convertedAmount),
                  (''from'', JStr fromCurrency), (''to'', JStr toCurrency),
                  (''lastUpdated'', updated), (''source'', JStr source)]\<rparr>"

text \<open>
  \<^verbatim>\<open>Number(x.toFixed(6))\<close>. For a double \<open>x\<close> below \<open>10\<^sup>2\<^sup>1\<close> in magnitude
  \<^verbatim>\<open>toFixed(6)\<close> prints the multiple of \<open>10\<^sup>-\<^sup>6\<close> nearest to the exact value of
  \<open>x\<close>, the larger in magnitude of two equally near, and \<^verbatim>\<open>Number\<close> gives the double
  nearest to what is printed. From \<open>10\<^sup>2\<^sup>1\<close> on, and for an infinity, the number is
  printed as \<^verbatim>\<open>String\<close> prints it and read back unchanged.
\<close>

definition toFixed6 :: "number \<Rightarrow> number" where
  "toFixed6 n =
     (case n of
        Fin x \<Rightarrow>
          if 10 ^ 21 \<le> \<bar>x\<bar> then Fin x
          else to_number ((if x < 0 then - 1 else 1) * of_int \<lfloor>\<bar>x\<bar> * 10 ^ 6 + 1 / 2\<rfloor> / 10 ^ 6)
      | PosInfinity \<Rightarrow> PosInfinity
      | NegInfinity \<Rightarrow> NegInfinity)"

text \<open>
  \<^verbatim>\<open>amount !== null ? Number((amount * rate).toFixed(6)) : null\<close>, as the response
  shows it: \<^verbatim>\<open>res.json\<close> writes an infinity as \<^verbatim>\<open>null\<close>.
\<close>

definition convertedAmount :: "real option \<Rightarrow> real \<Rightarrow> jsval" where
  "convertedAmount amount r =
     (case amount of
        None \<Rightarrow> JNull
      | Some a \<Rightarrow>
          (case toFixed6 (js_times a r) of
             Fin y \<Rightarrow> JNum y
           | PosInfinity \<Rightarrow> JNull
           | NegInfinity \<Rightarrow> JNull))"

text \<open>\<^verbatim>\<open>cached && typeof cached.conversion_rates?.[toCurrency] === 'number'\<close>\<close>

definition usable :: "jsval option \<Rightarrow> string \<Rightarrow> bool" where
  "usable cached toCurrency =
     (case cached of
        None \<Rightarrow> False
      | Some d \<Rightarrow> truthy d \<and> typeof_number (jsprop (jsprop d ''conversion_rates'') toCurrency))"

definition from_cache ::
  "jsval option \<Rightarrow> real option \<Rightarrow> string \<Rightarrow> string \<Rightarrow> string \<Rightarrow> response" where
  "from_cache cached amount fromCurrency toCurrency source =
     (let d = (case cached of Some d \<Rightarrow> d | None \<Rightarrow> JNull);
          r = jsprop (jsprop d ''conversion_rates'') toCurrency
      in success r (convertedAmount amount (num_of r)) fromCurrency toCurrency
           (jsprop d ''time_last_update_utc'') source)"

definition from_fallback ::
  "fallback_rate \<Rightarrow> real option \<Rightarrow> string \<Rightarrow> string \<Rightarrow> response" where
  "from_fallback fallbackRate amount fromCurrency toCurrency =
     success (JNum (rate fallbackRate)) (convertedAmount amount (rate fallbackRate))
       fromCurrency toCurrency (lastUpdated fallbackRate) ''fallback''"

definition PAIR_UNAVAILABLE :: "string \<Rightarrow> string \<Rightarrow> string" where
  "PAIR_UNAVAILABLE fromCurrency toCurrency =
     ''Exchange rate from '' @ fromCurrency @ '' to '' @ toCurrency @ '' not available.''"

text \<open>
  The \<^verbatim>\<open>try\<close>/\<^verbatim>\<open>catch\<close> of the handler (its lines 231 to 295), entered with the cache
  as the first read left it. Nothing after \<^verbatim>\<open>fetchRates\<close> in the \<^verbatim>\<open>try\<close> block
  throws, so the \<^verbatim>\<open>catch\<close> runs exactly when \<^verbatim>\<open>fetchRates\<close> throws.
\<close>

definition fetch_stage ::
  "config \<Rightarrow> world \<Rightarrow> cache \<Rightarrow> fallback_rate \<Rightarrow> string \<Rightarrow> string \<Rightarrow> real option
     \<Rightarrow> response \<times> cache \<times> event list" where
  "fetch_stage cfg w c1 fallbackRate fromCurrency toCurrency amount =
     (let (fetched, evs) = fetchRates cfg (upstream w);
          c2 = concurrent w c1
      in case fetched of
           Inr d \<Rightarrow>
             (let c3 = writeToCache (now2 w) c2 fromCurrency d;
                  evs3 = evs @ [CacheWrite (getCacheKey fromCurrency)];
                  r = jsprop (jsprop d ''conversion_rates'') toCurrency
              in if \<not> typeof_number r then
                   (failure 400 (PAIR_UNAVAILABLE fromCurrency toCurrency), c3,
                    evs3 @ [Console ''warn'' ''Rate missing for pair''
                              [(''fromCurrency'', JStr fromCurrency),
                               (''toCurrency'', JStr toCurrency)]])
                 else
                   (success r (convertedAmount amount (num_of r)) fromCurrency toCurrency
                      (jsprop d ''time_last_update_utc'') ''upstream'', c3, evs3))
         | Inl err \<Rightarrow>
             (let (cached, c3) = readFromCache (CACHE_TTL cfg) (now2 w) c2 fromCurrency;
                  evs3 = evs @ [CacheRead (getCacheKey fromCurrency)]
              in if usable cached toCurrency then
                   (from_cache cached amount fromCurrency toCurrency ''cache-fallback'', c3,
                    evs3 @ [Console ''warn'' ''Using cached data due to upstream failure''
                              [(''error'', JStr (err_message err))]])
                 else
                   (let isAbort = (err_name err = ''AbortError'') in
                    (from_fallback fallbackRate amount fromCurrency toCurrency, c3,
                     evs3 @ [Console ''warn'' ''Upstream fetch failed, using fallback data''
                               [(''message'', JStr (err_message err)),
                                (''timeout'',
                                 if isAbort then JNum (real_of_int (TIMEOUT_MS cfg))
                                 else JUndefined),
                                (''fallbackDefaulted'', JBool (defaulted fallbackRate))]]))))"

text \<open>\<^verbatim>\<open>req.method && req.method.toUpperCase() !== 'GET'\<close>\<close>

definition method_not_allowed :: "request \<Rightarrow> bool" where
  "method_not_allowed req =
     (case req_method req of None \<Rightarrow> False | Some m \<Rightarrow> m \<noteq> [] \<and> toUpperCase m \<noteq> ''GET'')"

text \<open>
  The handler: the response, the cache it leaves and its events in order.
\<close>

definition handler ::
  "config \<Rightarrow> world \<Rightarrow> request \<Rightarrow> cache \<Rightarrow> response \<times> cache \<times> event list" where
  "handler cfg w req c =
     (if method_not_allowed req
      then (failure 405 ''Method Not Allowed. Use GET.'', c, [])
      else
        case validateAndNormalizeQuery (req_query req) of
          Invalid e \<Rightarrow>
            (failure 400 e, c,
             [Console ''warn'' ''Validation failed for /api/convert:'' [(''error'', JStr e)]])
        | Valid fromCurrency toCurrency amount \<Rightarrow>
            (let fallbackRate = getFallbackRate (now0 w) fromCurrency toCurrency in
             if apiKey w \<in> {None, Some []} then
               (from_fallback fallbackRate amount fromCurrency toCurrency, c,
                [Console ''warn''
                   ''Missing EXCHANGE_RATE_API_KEY environment variable; using fallback data''
                   [(''fallbackDefaulted'', JBool (defaulted fallbackRate))]])
             else
               (let (cached, c1) = readFromCache (CACHE_TTL cfg) (now1 w) c fromCurrency in
                if usable cached toCurrency then
                  (from_cache cached amount fromCurrency toCurrency ''cache'', c1,
                   [CacheRead (getCacheKey fromCurrency)])
                else
                  (let (res, c3, evs) =
                         fetch_stage cfg w c1 fallbackRate fromCurrency toCurrency amount
                   in (res, c3, CacheRead (getCacheKey fromCurrency) # evs)))))"

section \<open>Sample data\<close>

text \<open>
  The configuration with the defaults of the source, a payload as the provider sends
  it, and a well-formed query.
\<close>

definition default_config :: config where
  "default_config = \<lparr>CACHE_TTL = 300000, TIMEOUT_MS = 8000, RETRIES = 1\<rparr>"

definition table_USD :: jsval where
  "table_USD =
     JObj [(''result'', JStr ''success''),
           (''time_last_update_utc'', JStr ''Mon, 02 Nov 2026 00:00:01 +0000''),
           (''base_code'', JStr ''USD''),
           (''conversion_rates'', JObj [(''USD'', JNum 1), (''EUR'', JNum 0.9)])]"

definition usd_eur_100 :: query where
  "usd_eur_100 = [(''from'', ''usd''), (''to'', ''eur''), (''amount'', ''100'')]"

definition get_request :: "query \<Rightarrow> request" where
  "get_request q = \<lparr>req_method = Some ''GET'', req_query = q\<rparr>"

definition usd_gbp :: query where
  "usd_gbp = [(''from'', ''USD''), (''to'', ''GBP'')]"

definition cache_at :: "int \<Rightarrow> cache" where
  "cache_at t = Map.empty(getCacheKey ''USD'' \<mapsto> \<lparr>ts = t, data = table_USD\<rparr>)"

definition timed_out :: js_error where
  "timed_out = JsError ''AbortError'' ''This operation was aborted''"

text \<open>A world in which every attempt times out and no other request is running.\<close>

definition offline :: world where
  "offline = \<lparr>apiKey = Some ''key'', now0 = 1000, now1 = 1000, now2 = 17200,
               upstream = (\<lambda>n. Rejects timed_out), concurrent = (\<lambda>c. c)\<rparr>"

text \<open>A world in which the provider answers at once, and one without a credential.\<close>

definition online :: world where
  "online = \<lparr>apiKey = Some ''key'', now0 = 1000, now1 = 1000, now2 = 1300,
              upstream = (\<lambda>n. Responds 200 (Inr table_USD)), concurrent = (\<lambda>c. c)\<rparr>"

definition no_key :: world where
  "no_key = \<lparr>apiKey = None, now0 = 1000, now1 = 1000, now2 = 1000,
              upstream = (\<lambda>n. Responds 200 (Inr table_USD)), concurrent = (\<lambda>c. c)\<rparr>"

text \<open>
  A world in which every attempt times out while another request stores a table for
  USD at time 2000, and a configuration with a TTL of ten seconds.
\<close>

definition racing :: world where
  "racing = \<lparr>apiKey = Some ''key'', now0 = 1000, now1 = 1000, now2 = 17200,
              upstream = (\<lambda>n. Rejects timed_out),
              concurrent = (\<lambda>c. writeToCache 2000 c ''USD'' table_USD)\<rparr>"

definition short_ttl :: config where
  "short_ttl = \<lparr>CACHE_TTL = 10000, TIMEOUT_MS = 8000, RETRIES = 1\<rparr>"

definition usd_usd_100 :: query where
  "usd_usd_100 = [(''from'', ''USD''), (''to'', ''USD''), (''amount'', ''100'')]"

definition post_request :: "query \<Rightarrow> request" where
  "post_request q = \<lparr>req_method = Some ''POST'', req_query = q\<rparr>"

definition usd_usd_tiny :: query where
  "usd_usd_tiny = [(''from'', ''USD''), (''to'', ''USD''), (''amount'', ''0.0000004'')]"


text \<open>Queries that the validator refuses.\<close>

definition with_debug :: query where
  "with_debug = [(''from'', ''USD''), (''to'', ''EUR''), (''debug'', ''1'')]"

definition with_amount :: "string \<Rightarrow> query" where
  "with_amount s = [(''from'', ''usd''), (''to'', ''eur''), (''amount'', s)]"

definition only_to :: query where
  "only_to = [(''to'', ''EUR'')]"

definition to_and_callback :: query where
  "to_and_callback = [(''to'', ''EUR''), (''callback'', ''x'')]"

definition empty_from :: query where
  "empty_from = [(''from'', []), (''to'', ''EUR'')]"

section \<open>Evaluation\<close>

lemmas fetch_eval =
  fetchRates_def fetchRates_loop.simps try_block_def non_ok_log_def res_ok_def
  catch_retryable_def error_msg_def status_re_def payload_re_def is_digit_def
  showNat.simps

lemmas number_eval =
  pow2_def halvings.simps doublings.simps exponent_def round_even_def binary64_def
  to_number_def js_times_def

lemmas validate_eval =
  validateAndNormalizeQuery_def ALLOWED_QUERY_PARAMS_def String_of_def toUpperCase_def
  upper_char_def ISO_CURRENCY_REGEX_def is_upper_def ALLOWED_CURRENCIES_def
  validateAmount_def trim_def is_space_def plain_decimal_def strip_sign_def is_digit_def
  toNumber_def literal_value_def digits_val_def number_eval MAX_AMOUNT_def MAX_DECIMALS_def
  Let_def

lemmas handler_eval =
  handler_def method_not_allowed_def fetch_stage_def getFallbackRate_def FALLBACK_RATES_def
  readFromCache_def writeToCache_def getCacheKey_def usable_def from_cache_def
  from_fallback_def success_def failure_def convertedAmount_def toFixed6_def number_eval
  PAIR_UNAVAILABLE_def

lemmas sample_defs =
  default_config_def short_ttl_def table_USD_def usd_eur_100_def usd_gbp_def usd_usd_100_def
  usd_usd_tiny_def with_debug_def with_amount_def only_to_def to_and_callback_def
  empty_from_def
  get_request_def post_request_def cache_at_def timed_out_def offline_def online_def
  no_key_def racing_def

section \<open>Rounding\<close>

text \<open>
  The numbers of the model are the doubles of the program. \<^verbatim>\<open>Number\<close> gives the
  double nearest to a literal: \<^verbatim>\<open>1000000000000.00001\<close> is \<open>10\<^sup>1\<^sup>2\<close>, the next double
  being \<open>2\<^sup>-\<^sup>1\<^sup>3\<close> above. The conversion multiplies doubles and rounds the exact value
  of the product: \<^verbatim>\<open>0.0000005\<close> is a double below \<open>5 \<cdot> 10\<^sup>-\<^sup>7\<close> and converts to 0 at
  rate 1, \<^verbatim>\<open>1.0000015\<close> to \<^verbatim>\<open>1.000001\<close>, \<^verbatim>\<open>0.00001\<close> at rate 0.85 to
  \<^verbatim>\<open>0.000008\<close>; the double \<open>2\<^sup>-\<^sup>7\<close> lies halfway between two multiples of
  \<open>10\<^sup>-\<^sup>6\<close> and goes to the larger. A product beyond the doubles is an infinity, which
  the response shows as \<^verbatim>\<open>null\<close>.
\<close>

lemma binary64_minus: "binary64 (- x) = - binary64 x"
  by (simp add: binary64_def Let_def)

lemma parsing_rounds_to_the_nearest_double:
  "toNumber ''100'' = Fin 100
   \<and> toNumber ''0.85'' = Fin (7656119366529843 / 2 ^ 53)
   \<and> toNumber ''1000000000000.00001'' = Fin (10 ^ 12)
   \<and> toNumber ''1000000000000.0001'' = Fin (10 ^ 12 + 1 / 2 ^ 13)
   \<and> toNumber ''-0.5'' = Fin (- 1 / 2)"
  by (simp add: toNumber_def literal_value_def strip_sign_def is_digit_def digits_val_def
      number_eval Let_def)

lemma conversion_rounds_the_double:
  "convertedAmount (Some 100) 0.85 = JNum 85
   \<and> convertedAmount (Some (binary64 (5 / 10 ^ 7))) 1 = JNum 0
   \<and> convertedAmount (Some (binary64 (10000015 / 10 ^ 7))) 1 = JNum (binary64 (1000001 / 10 ^ 6))
   \<and> convertedAmount (Some (binary64 (1 / 10 ^ 5))) 0.85 = JNum (binary64 (8 / 10 ^ 6))
   \<and> convertedAmount (Some (1 / 2 ^ 7)) 1 = JNum (binary64 (7813 / 10 ^ 6))
   \<and> convertedAmount None 0.85 = JNull"
  by (simp add: convertedAmount_def toFixed6_def number_eval Let_def)

lemma overflowing_product_is_null:
  "convertedAmount (Some (10 ^ 12)) (2 ^ 1000) = JNull"
  by (simp add: convertedAmount_def toFixed6_def number_eval Let_def)

section \<open>Retry and backoff in \<^verbatim>\<open>fetchRates\<close>\<close>

text \<open>
  One iteration of the loop, for the three kinds of failure that matter below. A thrown
  error that the \<^verbatim>\<open>catch\<close> block does not classify as retryable ends the loop at
  once; a timeout before the last attempt is followed by the backoff sleep and the
  next attempt; a status of 429 or at least 500 before the last attempt is followed by
  the next attempt with no sleep.
\<close>

lemma unclassified_error_ends_loop:
  assumes "up n = Rejects err" and "\<not> catch_retryable err" and "int n \<le> RETRIES cfg"
  shows "fetchRates_loop cfg up n l tr = (Inl err, tr @ [UpstreamCall n])"
  using assms
  by (subst fetchRates_loop.simps) (simp add: try_block_def non_ok_log_def)

lemma timeout_sleeps_then_retries:
  assumes "up n = Rejects err" and "err_name err = ''AbortError''" and "int n < RETRIES cfg"
  shows "fetchRates_loop cfg up n l tr =
     fetchRates_loop cfg up (n + 1) (Some err) (tr @ [UpstreamCall n, Sleep (200 * 2 ^ n)])"
  using assms
  by (subst fetchRates_loop.simps) (simp add: try_block_def non_ok_log_def catch_retryable_def)

lemma retryable_status_retries_at_once:
  assumes "up n = Responds st json" and "st \<ge> 500 \<or> st = 429" and "int n < RETRIES cfg"
  shows "fetchRates_loop cfg up n l tr =
     fetchRates_loop cfg up (n + 1) l
       (tr @ [UpstreamCall n, Console ''error'' ''Upstream non-OK'' [(''status'', JNum (real st))]])"
  using assms
  by (subst fetchRates_loop.simps) (auto simp: try_block_def non_ok_log_def res_ok_def)

text \<open>
  A timeout before the last attempt is retried, after a sleep of 200 ms.
\<close>

lemma timeout_is_retried_after_backoff:
  "fetchRates default_config
     (\<lambda>n. if n = 0 then Rejects (JsError ''AbortError'' ''This operation was aborted'')
          else Responds 200 (Inr table_USD))
   = (Inr table_USD, [UpstreamCall 0, Sleep 200, UpstreamCall 1])"
  by (simp add: fetch_eval default_config_def table_USD_def)

text \<open>
  C3. The claim: before the last attempt, an attempt is retried exactly when its failure
  is a timeout, a network error, a status of 429 or at least 500, or a malformed payload.
  The comments of the source say the same of network errors. The code does not retry
  them: with one retry allowed, a first attempt that fails with the network error
  \<^verbatim>\<open>TypeError: fetch failed\<close> ends \<^verbatim>\<open>fetchRates\<close> with that error after a single
  call, although the second attempt would have succeeded.
\<close>

theorem network_error_is_not_retried:
  "fetchRates default_config
     (\<lambda>n. if n = 0 then Rejects (JsError ''TypeError'' ''fetch failed'')
          else Responds 200 (Inr table_USD))
   = (Inl (JsError ''TypeError'' ''fetch failed''), [UpstreamCall 0])"
  by (simp add: fetch_eval default_config_def)

text \<open>
  C5. The claim: a backoff of 200 ms times two to the attempt index precedes every
  retried attempt, also after a status of 429 or at least 500. The code sleeps only in
  its \<^verbatim>\<open>catch\<close> block, which a retryable status before the last attempt never
  reaches: a 503 followed by a success gives two calls with no sleep between them.
\<close>

theorem retried_status_has_no_backoff:
  "fetchRates default_config
     (\<lambda>n. if n = 0 then Responds 503 (Inl (JsError ''SyntaxError'' ''Unexpected token''))
          else Responds 200 (Inr table_USD))
   = (Inr table_USD,
      [UpstreamCall 0, Console ''error'' ''Upstream non-OK'' [(''status'', JNum 503)],
       UpstreamCall 1])"
  by (simp add: fetch_eval default_config_def table_USD_def)

section \<open>The cache\<close>

lemma getCacheKey_inj [simp]: "getCacheKey a = getCacheKey b \<longleftrightarrow> a = b"
  by (simp add: getCacheKey_def)

lemma fetchRates_loop_no_write:
  "filter is_write tr = [] \<Longrightarrow> filter is_write (snd (fetchRates_loop cfg up n l tr)) = []"
proof (induction cfg up n l tr rule: fetchRates_loop.induct)
  case (1 cfg up attempt lastErr tr)
  have nl: "filter is_write (non_ok_log (up attempt)) = []"
    by (simp add: non_ok_log_def split: attempt.splits)
  show ?case
  proof (cases "int attempt \<le> RETRIES cfg")
    case False
    with 1 show ?thesis by (subst fetchRates_loop.simps) simp
  next
    case True
    show ?thesis
    proof (cases "try_block (RETRIES cfg) attempt (up attempt)")
      case (Returned d)
      with True 1 nl show ?thesis by (subst fetchRates_loop.simps) (simp add: Let_def)
    next
      case (Thrown err)
      with True 1 nl show ?thesis by (subst fetchRates_loop.simps) (simp add: Let_def)
    next
      case Completed
      with True 1 nl show ?thesis by (subst fetchRates_loop.simps) (simp add: Let_def)
    qed
  qed
qed

lemma fetchRates_no_write: "filter is_write (snd (fetchRates cfg up)) = []"
  by (simp add: fetchRates_def fetchRates_loop_no_write)

lemma read_keeps:
  "snd (readFromCache ttl now c f) k = Some e \<Longrightarrow> c k = Some e"
  by (auto simp: readFromCache_def Let_def split: option.splits if_splits)

lemma read_unexpired:
  "c (getCacheKey b) = Some e \<Longrightarrow> now - ts e \<le> ttl \<Longrightarrow>
   snd (readFromCache ttl now c f) (getCacheKey b) = Some e"
  by (auto simp: readFromCache_def Let_def split: option.splits if_splits)

lemma read_hit:
  "c (getCacheKey b) = Some e \<Longrightarrow> now - ts e \<le> ttl \<Longrightarrow>
   readFromCache ttl now c b = (Some (data e), c)"
  by (simp add: readFromCache_def)

lemma read_expired:
  "c (getCacheKey b) = Some e \<Longrightarrow> now - ts e > ttl \<Longrightarrow>
   readFromCache ttl now c b = (None, c(getCacheKey b := None))"
  by (simp add: readFromCache_def)

lemma read_absent:
  "c (getCacheKey b) = None \<Longrightarrow> readFromCache ttl now c b = (None, c)"
  by (simp add: readFromCache_def)

lemma read_iff:
  "fst (readFromCache ttl now c b) = Some d \<longleftrightarrow>
   (\<exists>e. c (getCacheKey b) = Some e \<and> now - ts e \<le> ttl \<and> d = data e)"
  by (auto simp: readFromCache_def Let_def split: option.splits)

lemma fetch_stage_failure:
  assumes "fst (fetchRates cfg (upstream w)) = Inl err"
  shows "\<exists>res tail.
     fetch_stage cfg w c1 fb f t a =
       (res, snd (readFromCache (CACHE_TTL cfg) (now2 w) (concurrent w c1) f),
        snd (fetchRates cfg (upstream w)) @ [CacheRead (getCacheKey f), tail])
     \<and> \<not> is_write tail"
  using assms
  by (cases "fetchRates cfg (upstream w)")
     (auto simp: fetch_stage_def Let_def split: prod.splits)

lemma handler_after_failure:
  assumes "fst (fetchRates cfg (upstream w)) = Inl err"
    and "handler cfg w req c = (res, c', evs)"
  shows "filter is_write evs = [] \<and>
    (\<exists>f. c' = c \<or> c' = snd (readFromCache (CACHE_TTL cfg) (now1 w) c f) \<or>
         c' = snd (readFromCache (CACHE_TTL cfg) (now2 w)
                (concurrent w (snd (readFromCache (CACHE_TTL cfg) (now1 w) c f))) f))"
proof -
  note fs = fetch_stage_failure [OF assms(1)]
  show ?thesis
  proof (cases "method_not_allowed req")
    case True
    with assms(2) show ?thesis by (auto simp: handler_def)
  next
    case meth: False
    show ?thesis
    proof (cases "validateAndNormalizeQuery (req_query req)")
      case (Invalid e)
      with meth assms(2) show ?thesis by (auto simp: handler_def)
    next
      case (Valid f t a)
      show ?thesis
      proof (cases "apiKey w \<in> {None, Some []}")
        case True
        with meth Valid assms(2) show ?thesis by (auto simp: handler_def Let_def)
      next
        case key: False
        obtain cached c1 where rd: "readFromCache (CACHE_TTL cfg) (now1 w) c f = (cached, c1)"
          by (cases "readFromCache (CACHE_TTL cfg) (now1 w) c f") auto
        show ?thesis
        proof (cases "usable cached t")
          case True
          with meth Valid key rd assms(2) have "c' = c1" "evs = [CacheRead (getCacheKey f)]"
            by (auto simp: handler_def Let_def)
          with rd show ?thesis by (auto intro!: exI[of _ f])
        next
          case False
          from fs [of c1 "getFallbackRate (now0 w) f t" f t a]
          obtain r tail where st:
            "fetch_stage cfg w c1 (getFallbackRate (now0 w) f t) f t a =
               (r, snd (readFromCache (CACHE_TTL cfg) (now2 w) (concurrent w c1) f),
                snd (fetchRates cfg (upstream w)) @ [CacheRead (getCacheKey f), tail])"
            and tl: "\<not> is_write tail" by blast
          from meth Valid key rd False st assms(2)
          have c': "c' = snd (readFromCache (CACHE_TTL cfg) (now2 w) (concurrent w c1) f)"
            and ev: "evs = CacheRead (getCacheKey f) #
                       snd (fetchRates cfg (upstream w)) @ [CacheRead (getCacheKey f), tail]"
            by (auto simp: handler_def Let_def)
          from ev tl have "filter is_write evs = []"
            by (simp add: fetchRates_no_write)
          moreover from c' rd have "c' = snd (readFromCache (CACHE_TTL cfg) (now2 w)
                (concurrent w (snd (readFromCache (CACHE_TTL cfg) (now1 w) c f))) f)"
            by simp
          ultimately show ?thesis by blast
        qed
      qed
    qed
  qed
qed

text \<open>
  C7. The contract of the rate cache. A read returns the stored table exactly when an
  entry exists whose age \<open>now - ts\<close> is at most the TTL, and then leaves the cache as
  it is; when the age exceeds the TTL the read removes the entry and returns
  \<^verbatim>\<open>null\<close>. A write puts the new table with the current time in the slot of its
  base, whatever was there, and touches no other slot. When \<^verbatim>\<open>fetchRates\<close> fails, the
  handler writes nothing, and an entry that no other request touches and that is within
  its TTL at the handler's reads is still returned by a later read within its TTL.
\<close>

theorem cache_contract:
  "(fst (readFromCache ttl now c b) = Some d \<longleftrightarrow>
      (\<exists>e. c (getCacheKey b) = Some e \<and> now - ts e \<le> ttl \<and> d = data e))
   \<and> (\<forall>e. c (getCacheKey b) = Some e \<and> now - ts e \<le> ttl \<longrightarrow>
          readFromCache ttl now c b = (Some (data e), c))
   \<and> (\<forall>e. c (getCacheKey b) = Some e \<and> now - ts e > ttl \<longrightarrow>
          readFromCache ttl now c b = (None, c(getCacheKey b := None)))
   \<and> writeToCache now c b d (getCacheKey b) = Some \<lparr>ts = now, data = d\<rparr>
   \<and> (\<forall>k. k \<noteq> getCacheKey b \<longrightarrow> writeToCache now c b d k = c k)
   \<and> (fst (fetchRates cfg (upstream w)) = Inl err \<and> handler cfg w req c = (res, c', evs) \<longrightarrow>
        filter is_write evs = [] \<and>
        (\<forall>b e t. c (getCacheKey b) = Some e \<and>
                 (\<forall>x. concurrent w x (getCacheKey b) = x (getCacheKey b)) \<and>
                 now1 w - ts e \<le> CACHE_TTL cfg \<and> now2 w - ts e \<le> CACHE_TTL cfg \<and>
                 t - ts e \<le> CACHE_TTL cfg \<longrightarrow>
                 readFromCache (CACHE_TTL cfg) t c' b = (Some (data e), c')))"
proof -
  have failed: "filter is_write evs = [] \<and>
        (\<forall>b e t. c (getCacheKey b) = Some e \<and>
                 (\<forall>x. concurrent w x (getCacheKey b) = x (getCacheKey b)) \<and>
                 now1 w - ts e \<le> CACHE_TTL cfg \<and> now2 w - ts e \<le> CACHE_TTL cfg \<and>
                 t - ts e \<le> CACHE_TTL cfg \<longrightarrow>
                 readFromCache (CACHE_TTL cfg) t c' b = (Some (data e), c'))"
    if f: "fst (fetchRates cfg (upstream w)) = Inl err"
      and h: "handler cfg w req c = (res, c', evs)"
  proof -
    from handler_after_failure [OF f h] obtain f where
      nw: "filter is_write evs = []" and
      c': "c' = c \<or> c' = snd (readFromCache (CACHE_TTL cfg) (now1 w) c f) \<or>
           c' = snd (readFromCache (CACHE_TTL cfg) (now2 w)
                  (concurrent w (snd (readFromCache (CACHE_TTL cfg) (now1 w) c f))) f)"
      by blast
    have "readFromCache (CACHE_TTL cfg) t c' b = (Some (data e), c')"
      if e: "c (getCacheKey b) = Some e"
        and quiet: "\<forall>x. concurrent w x (getCacheKey b) = x (getCacheKey b)"
        and t1: "now1 w - ts e \<le> CACHE_TTL cfg"
        and t2: "now2 w - ts e \<le> CACHE_TTL cfg"
        and t3: "t - ts e \<le> CACHE_TTL cfg"
      for b e t
    proof -
      let ?c1 = "snd (readFromCache (CACHE_TTL cfg) (now1 w) c f)"
      have k1: "?c1 (getCacheKey b) = Some e"
        using e t1 by (simp add: read_unexpired)
      have k2: "concurrent w ?c1 (getCacheKey b) = Some e"
        using quiet k1 by simp
      have k3: "snd (readFromCache (CACHE_TTL cfg) (now2 w) (concurrent w ?c1) f)
                  (getCacheKey b) = Some e"
        using k2 t2 by (simp add: read_unexpired)
      from c' e k1 k3 have "c' (getCacheKey b) = Some e" by auto
      then show ?thesis using t3 by (simp add: read_hit)
    qed
    with nw show ?thesis by blast
  qed
  show ?thesis
    using failed
    by (simp add: read_iff read_hit read_expired writeToCache_def)
qed

theorem cache_contract_witness:
  "readFromCache 300000 300000 (cache_at 0) ''USD'' = (Some table_USD, cache_at 0)
   \<and> readFromCache 300000 300001 (cache_at 0) ''USD'' = (None, Map.empty)
   \<and> writeToCache 5 (cache_at 0) ''USD'' JNull (getCacheKey ''USD'') = Some \<lparr>ts = 5, data = JNull\<rparr>
   \<and> fst (fetchRates default_config (upstream offline)) = Inl timed_out
   \<and> handler default_config offline (get_request usd_gbp) (cache_at 0) =
       (from_fallback (getFallbackRate 1000 ''USD'' ''GBP'') None ''USD'' ''GBP'', cache_at 0,
        [CacheRead ''latest:USD'', UpstreamCall 0, Sleep 200, UpstreamCall 1,
         CacheRead ''latest:USD'',
         Console ''warn'' ''Upstream fetch failed, using fallback data''
           [(''message'', JStr ''This operation was aborted''), (''timeout'', JNum 8000),
            (''fallbackDefaulted'', JBool False)]])
   \<and> readFromCache 300000 20000 (cache_at 0) ''USD'' = (Some table_USD, cache_at 0)"
proof -
  have e: "cache_at 0 (getCacheKey ''USD'') = Some \<lparr>ts = 0, data = table_USD\<rparr>"
    by (simp add: cache_at_def)
  have f: "fst (fetchRates default_config (upstream offline)) = Inl timed_out"
    by (simp add: fetch_eval default_config_def offline_def timed_out_def)
  have h: "handler default_config offline (get_request usd_gbp) (cache_at 0) =
       (from_fallback (getFallbackRate 1000 ''USD'' ''GBP'') None ''USD'' ''GBP'', cache_at 0,
        [CacheRead ''latest:USD'', UpstreamCall 0, Sleep 200, UpstreamCall 1,
         CacheRead ''latest:USD'',
         Console ''warn'' ''Upstream fetch failed, using fallback data''
           [(''message'', JStr ''This operation was aborted''), (''timeout'', JNum 8000),
            (''fallbackDefaulted'', JBool False)]])"
    by (simp add: handler_eval validate_eval fetch_eval default_config_def offline_def
        timed_out_def get_request_def usd_gbp_def cache_at_def table_USD_def)
  have exp: "readFromCache 300000 300001 (cache_at 0) ''USD'' = (None, Map.empty)"
    using cache_contract [where ttl = 300000 and now = 300001 and c = "cache_at 0"
        and b = "''USD''"] e
    by (simp add: cache_at_def)
  from cache_contract [where ttl = 300000 and now = 300000 and c = "cache_at 0"
      and b = "''USD''" and cfg = default_config and w = offline and err = timed_out
      and req = "get_request usd_gbp"] e f h exp
  show ?thesis
    by (simp add: default_config_def offline_def readFromCache_def writeToCache_def)
qed

section \<open>The paths of the handler\<close>

lemma handler_405:
  "method_not_allowed req \<Longrightarrow>
   handler cfg w req c = (failure 405 ''Method Not Allowed. Use GET.'', c, [])"
  by (simp add: handler_def)

lemma handler_invalid:
  "\<not> method_not_allowed req \<Longrightarrow> validateAndNormalizeQuery (req_query req) = Invalid e \<Longrightarrow>
   handler cfg w req c =
     (failure 400 e, c,
      [Console ''warn'' ''Validation failed for /api/convert:'' [(''error'', JStr e)]])"
  by (simp add: handler_def)

lemma handler_no_key:
  "\<not> method_not_allowed req \<Longrightarrow> validateAndNormalizeQuery (req_query req) = Valid f t a \<Longrightarrow>
   apiKey w \<in> {None, Some []} \<Longrightarrow>
   handler cfg w req c =
     (from_fallback (getFallbackRate (now0 w) f t) a f t, c,
      [Console ''warn''
         ''Missing EXCHANGE_RATE_API_KEY environment variable; using fallback data''
         [(''fallbackDefaulted'', JBool (defaulted (getFallbackRate (now0 w) f t)))]])"
  by (simp add: handler_def Let_def)

lemma handler_cache_hit:
  "\<not> method_not_allowed req \<Longrightarrow> validateAndNormalizeQuery (req_query req) = Valid f t a \<Longrightarrow>
   apiKey w \<notin> {None, Some []} \<Longrightarrow>
   readFromCache (CACHE_TTL cfg) (now1 w) c f = (cached, c1) \<Longrightarrow> usable cached t \<Longrightarrow>
   handler cfg w req c = (from_cache cached a f t ''cache'', c1, [CacheRead (getCacheKey f)])"
  by (simp add: handler_def Let_def)

lemma handler_fetch:
  "\<not> method_not_allowed req \<Longrightarrow> validateAndNormalizeQuery (req_query req) = Valid f t a \<Longrightarrow>
   apiKey w \<notin> {None, Some []} \<Longrightarrow>
   readFromCache (CACHE_TTL cfg) (now1 w) c f = (cached, c1) \<Longrightarrow> \<not> usable cached t \<Longrightarrow>
   fetch_stage cfg w c1 (getFallbackRate (now0 w) f t) f t a = (res, c3, evs) \<Longrightarrow>
   handler cfg w req c = (res, c3, CacheRead (getCacheKey f) # evs)"
  by (simp add: handler_def Let_def)

lemma fetch_stage_upstream:
  "fetchRates cfg (upstream w) = (Inr d, evs) \<Longrightarrow>
   typeof_number (jsprop (jsprop d ''conversion_rates'') t) \<Longrightarrow>
   fetch_stage cfg w c1 fb f t a =
     (success (jsprop (jsprop d ''conversion_rates'') t)
        (convertedAmount a (num_of (jsprop (jsprop d ''conversion_rates'') t))) f t
        (jsprop d ''time_last_update_utc'') ''upstream'',
      writeToCache (now2 w) (concurrent w c1) f d,
      evs @ [CacheWrite (getCacheKey f)])"
  by (simp add: fetch_stage_def Let_def)

lemma fetch_stage_pair:
  "fetchRates cfg (upstream w) = (Inr d, evs) \<Longrightarrow>
   \<not> typeof_number (jsprop (jsprop d ''conversion_rates'') t) \<Longrightarrow>
   fetch_stage cfg w c1 fb f t a =
     (failure 400 (PAIR_UNAVAILABLE f t),
      writeToCache (now2 w) (concurrent w c1) f d,
      evs @ [CacheWrite (getCacheKey f),
             Console ''warn'' ''Rate missing for pair''
               [(''fromCurrency'', JStr f), (''toCurrency'', JStr t)]])"
  by (simp add: fetch_stage_def Let_def)

lemma fetch_stage_cache_fallback:
  "fetchRates cfg (upstream w) = (Inl err, evs) \<Longrightarrow>
   readFromCache (CACHE_TTL cfg) (now2 w) (concurrent w c1) f = (cached, c3) \<Longrightarrow>
   usable cached t \<Longrightarrow>
   fetch_stage cfg w c1 fb f t a =
     (from_cache cached a f t ''cache-fallback'', c3,
      evs @ [CacheRead (getCacheKey f),
             Console ''warn'' ''Using cached data due to upstream failure''
               [(''error'', JStr (err_message err))]])"
  by (simp add: fetch_stage_def Let_def)

lemma fetch_stage_fallback:
  "fetchRates cfg (upstream w) = (Inl err, evs) \<Longrightarrow>
   readFromCache (CACHE_TTL cfg) (now2 w) (concurrent w c1) f = (cached, c3) \<Longrightarrow>
   \<not> usable cached t \<Longrightarrow>
   fetch_stage cfg w c1 fb f t a =
     (from_fallback fb a f t, c3,
      evs @ [CacheRead (getCacheKey f),
             Console ''warn'' ''Upstream fetch failed, using fallback data''
               [(''message'', JStr (err_message err)),
                (''timeout'',
                 if err_name err = ''AbortError'' then JNum (real_of_int (TIMEOUT_MS cfg))
                 else JUndefined),
                (''fallbackDefaulted'', JBool (defaulted fb))]])"
  by (simp add: fetch_stage_def Let_def)

lemma handler_paths [consumes 3, case_names no_key cache upstream pair cache_fallback fallback]:
  assumes "\<not> method_not_allowed req"
    and "validateAndNormalizeQuery (req_query req) = Valid f t a"
    and "handler cfg w req c = (res, c', evs)"
  obtains
    "apiKey w \<in> {None, Some []}"
      "res = from_fallback (getFallbackRate (now0 w) f t) a f t" "c' = c"
      "evs = [Console ''warn''
         ''Missing EXCHANGE_RATE_API_KEY environment variable; using fallback data''
         [(''fallbackDefaulted'', JBool (defaulted (getFallbackRate (now0 w) f t)))]]"
  | cached c1 where "apiKey w \<notin> {None, Some []}"
      "readFromCache (CACHE_TTL cfg) (now1 w) c f = (cached, c1)" "usable cached t"
      "res = from_cache cached a f t ''cache''" "c' = c1" "evs = [CacheRead (getCacheKey f)]"
  | cached c1 d fevs where "apiKey w \<notin> {None, Some []}"
      "readFromCache (CACHE_TTL cfg) (now1 w) c f = (cached, c1)" "\<not> usable cached t"
      "fetchRates cfg (upstream w) = (Inr d, fevs)"
      "typeof_number (jsprop (jsprop d ''conversion_rates'') t)"
      "res = success (jsprop (jsprop d ''conversion_rates'') t)
         (convertedAmount a (num_of (jsprop (jsprop d ''conversion_rates'') t))) f t
         (jsprop d ''time_last_update_utc'') ''upstream''"
      "c' = writeToCache (now2 w) (concurrent w c1) f d"
      "evs = CacheRead (getCacheKey f) # fevs @ [CacheWrite (getCacheKey f)]"
  | cached c1 d fevs where "apiKey w \<notin> {None, Some []}"
      "readFromCache (CACHE_TTL cfg) (now1 w) c f = (cached, c1)" "\<not> usable cached t"
      "fetchRates cfg (upstream w) = (Inr d, fevs)"
      "\<not> typeof_number (jsprop (jsprop d ''conversion_rates'') t)"
      "res = failure 400 (PAIR_UNAVAILABLE f t)"
      "c' = writeToCache (now2 w) (concurrent w c1) f d"
      "evs = CacheRead (getCacheKey f) # fevs @
         [CacheWrite (getCacheKey f),
          Console ''warn'' ''Rate missing for pair''
            [(''fromCurrency'', JStr f), (''toCurrency'', JStr t)]]"
  | cached c1 err fevs cached2 c3 where "apiKey w \<notin> {None, Some []}"
      "readFromCache (CACHE_TTL cfg) (now1 w) c f = (cached, c1)" "\<not> usable cached t"
      "fetchRates cfg (upstream w) = (Inl err, fevs)"
      "readFromCache (CACHE_TTL cfg) (now2 w) (concurrent w c1) f = (cached2, c3)"
      "usable cached2 t"
      "res = from_cache cached2 a f t ''cache-fallback''" "c' = c3"
      "evs = CacheRead (getCacheKey f) # fevs @
         [CacheRead (getCacheKey f),
          Console ''warn'' ''Using cached data due to upstream failure''
            [(''error'', JStr (err_message err))]]"
  | cached c1 err fevs cached2 c3 where "apiKey w \<notin> {None, Some []}"
      "readFromCache (CACHE_TTL cfg) (now1 w) c f = (cached, c1)" "\<not> usable cached t"
      "fetchRates cfg (upstream w) = (Inl err, fevs)"
      "readFromCache (CACHE_TTL cfg) (now2 w) (concurrent w c1) f = (cached2, c3)"
      "\<not> usable cached2 t"
      "res = from_fallback (getFallbackRate (now0 w) f t) a f t" "c' = c3"
      "evs = CacheRead (getCacheKey f) # fevs @
         [CacheRead (getCacheKey f),
          Console ''warn'' ''Upstream fetch failed, using fallback data''
            [(''message'', JStr (err_message err)),
             (''timeout'',
              if err_name err = ''AbortError'' then JNum (real_of_int (TIMEOUT_MS cfg))
              else JUndefined),
             (''fallbackDefaulted'', JBool (defaulted (getFallbackRate (now0 w) f t)))]]"
proof (cases "apiKey w \<in> {None, Some []}")
  case True
  from handler_no_key [OF assms(1,2) True, of cfg c] assms(3) that(1) [OF True]
  show ?thesis by simp
next
  case key: False
  obtain cached c1 where rd: "readFromCache (CACHE_TTL cfg) (now1 w) c f = (cached, c1)"
    by (cases "readFromCache (CACHE_TTL cfg) (now1 w) c f") auto
  show ?thesis
  proof (cases "usable cached t")
    case True
    from handler_cache_hit [OF assms(1,2) key rd True] assms(3) that(2) [OF key rd True]
    show ?thesis by simp
  next
    case miss: False
    obtain fetched fevs where fr: "fetchRates cfg (upstream w) = (fetched, fevs)"
      by (cases "fetchRates cfg (upstream w)") auto
    show ?thesis
    proof (cases fetched)
      case (Inr d)
      with fr have fr': "fetchRates cfg (upstream w) = (Inr d, fevs)" by simp
      show ?thesis
      proof (cases "typeof_number (jsprop (jsprop d ''conversion_rates'') t)")
        case True
        from handler_fetch [OF assms(1,2) key rd miss fetch_stage_upstream [OF fr' True]]
          assms(3) that(3) [OF key rd miss fr' True]
        show ?thesis by simp
      next
        case False
        from handler_fetch [OF assms(1,2) key rd miss fetch_stage_pair [OF fr' False]]
          assms(3) that(4) [OF key rd miss fr' False]
        show ?thesis by simp
      qed
    next
      case (Inl err)
      with fr have fr': "fetchRates cfg (upstream w) = (Inl err, fevs)" by simp
      obtain cached2 c3 where
        rd2: "readFromCache (CACHE_TTL cfg) (now2 w) (concurrent w c1) f = (cached2, c3)"
        by (cases "readFromCache (CACHE_TTL cfg) (now2 w) (concurrent w c1) f") auto
      show ?thesis
      proof (cases "usable cached2 t")
        case True
        from handler_fetch [OF assms(1,2) key rd miss fetch_stage_cache_fallback [OF fr' rd2 True]]
          assms(3) that(5) [OF key rd miss fr' rd2 True]
        show ?thesis by simp
      next
        case False
        from handler_fetch [OF assms(1,2) key rd miss fetch_stage_fallback [OF fr' rd2 False]]
          assms(3) that(6) [OF key rd miss fr' rd2 False]
        show ?thesis by simp
      qed
    qed
  qed
qed

lemma typeof_numberE: "typeof_number v \<Longrightarrow> \<exists>x. v = JNum x"
  by (cases v) auto

lemma usable_rate:
  "usable cached t \<Longrightarrow> \<exists>x. map_of (res_body (from_cache cached a f t src)) ''rate'' = Some (JNum x)"
  by (auto simp: usable_def from_cache_def success_def Let_def split: option.splits
      dest: typeof_numberE)

section \<open>The validator\<close>


lemma expected_parameters:
  "set (map fst q) \<subseteq> set ALLOWED_QUERY_PARAMS \<Longrightarrow>
   find (\<lambda>k. k \<notin> set ALLOWED_QUERY_PARAMS) (map fst q) = None"
  by (auto simp: find_None_iff)

lemma missing_parameters:
  assumes "set (map fst q) \<subseteq> set ALLOWED_QUERY_PARAMS"
    and "map_of q ''from'' \<in> {None, Some []} \<or> map_of q ''to'' \<in> {None, Some []}"
  shows "validateAndNormalizeQuery q = Invalid ERR_MISSING"
  using assms(2) expected_parameters [OF assms(1)]
  by (auto simp: validateAndNormalizeQuery_def Let_def)


lemma toUpperCase_Nil [simp]: "toUpperCase [] = []"
  by (simp add: toUpperCase_def)



lemma invalid_query_touches_nothing:
  assumes "validateAndNormalizeQuery (req_query req) = Invalid e"
  shows "\<exists>r evs. handler cfg w req c = (r, c, evs) \<and> filter is_access evs = [] \<and>
           map_of (res_body r) ''success'' = Some (JBool False) \<and>
           (\<not> method_not_allowed req \<longrightarrow> r = failure 400 e)"
proof (cases "method_not_allowed req")
  case True
  then show ?thesis by (simp add: handler_405 failure_def)
next
  case False
  with assms show ?thesis by (simp add: handler_invalid failure_def)
qed
























section \<open>Amounts and the same-currency rate\<close>

lemma validateAmount_bounds:
  "validateAmount raw = Inr v \<Longrightarrow> 0 \<le> v \<and> v \<le> 10 ^ 12"
  by (auto simp: validateAmount_def Let_def MAX_AMOUNT_def
      split: if_splits list.splits number.splits)

lemma validated_amount_bounds:
  "validateAndNormalizeQuery q = Valid f t (Some v) \<Longrightarrow> 0 \<le> v \<and> v \<le> 10 ^ 12"
  by (auto simp: validateAndNormalizeQuery_def Let_def
      split: option.splits if_splits sum.splits dest: validateAmount_bounds)


lemma miss_leaves_nothing_usable:
  assumes "readFromCache ttl now c f = (cached, c1)" and "\<not> usable cached t"
    and "c1 (getCacheKey f) = Some e"
  shows "\<not> usable (Some (data e)) t"
  using assms
  by (auto simp: readFromCache_def Let_def split: option.splits if_splits)

section \<open>The claims about the handler\<close>

text \<open>
  C6. When the request reaches the upstream fetch, the fetch succeeds and the table it
  returns has no numeric rate for the target currency, the handler writes the table to
  the cache and then answers with status 400 and the body
  \<^verbatim>\<open>{ success: false, error: "Exchange rate from <FROM> to <TO> not available." }\<close>
  with the two codes in place. The events end with the write and the warning: the cache
  is not read again and no fallback rate is served.
\<close>

theorem pair_not_available_is_terminal:
  assumes "\<not> method_not_allowed req"
    and "validateAndNormalizeQuery (req_query req) = Valid f t a"
    and "apiKey w \<notin> {None, Some []}"
    and "readFromCache (CACHE_TTL cfg) (now1 w) c f = (cached, c1)"
    and "\<not> usable cached t"
    and "fetchRates cfg (upstream w) = (Inr d, evs)"
    and "\<not> typeof_number (jsprop (jsprop d ''conversion_rates'') t)"
  shows "handler cfg w req c =
     (\<lparr>res_status = 400,
       res_body = [(''success'', JBool False),
                   (''error'', JStr (''Exchange rate from '' @ f @ '' to '' @ t @ '' not available.''))]\<rparr>,
      writeToCache (now2 w) (concurrent w c1) f d,
      CacheRead (getCacheKey f) # evs @
        [CacheWrite (getCacheKey f),
         Console ''warn'' ''Rate missing for pair''
           [(''fromCurrency'', JStr f), (''toCurrency'', JStr t)]])"
  using handler_fetch [OF assms(1-5) fetch_stage_pair [OF assms(6,7)]]
  by (simp add: failure_def PAIR_UNAVAILABLE_def)

theorem pair_not_available_is_terminal_witness:
  "\<not> method_not_allowed (get_request usd_gbp)
   \<and> validateAndNormalizeQuery (req_query (get_request usd_gbp)) = Valid ''USD'' ''GBP'' None
   \<and> apiKey online \<notin> {None, Some []}
   \<and> readFromCache (CACHE_TTL default_config) (now1 online) Map.empty ''USD'' = (None, Map.empty)
   \<and> \<not> usable None ''GBP''
   \<and> fetchRates default_config (upstream online) = (Inr table_USD, [UpstreamCall 0])
   \<and> \<not> typeof_number (jsprop (jsprop table_USD ''conversion_rates'') ''GBP'')
   \<and> handler default_config online (get_request usd_gbp) Map.empty =
     (\<lparr>res_status = 400,
       res_body = [(''success'', JBool False),
                   (''error'', JStr ''Exchange rate from USD to GBP not available.'')]\<rparr>,
      Map.empty(''latest:USD'' \<mapsto> \<lparr>ts = 1300, data = table_USD\<rparr>),
      [CacheRead ''latest:USD'', UpstreamCall 0, CacheWrite ''latest:USD'',
       Console ''warn'' ''Rate missing for pair''
         [(''fromCurrency'', JStr ''USD''), (''toCurrency'', JStr ''GBP'')]])"
proof -
  have 1: "\<not> method_not_allowed (get_request usd_gbp)"
    by (simp add: method_not_allowed_def get_request_def toUpperCase_def upper_char_def)
  have 2: "validateAndNormalizeQuery (req_query (get_request usd_gbp)) = Valid ''USD'' ''GBP'' None"
    by (simp add: validate_eval get_request_def usd_gbp_def)
  have 3: "apiKey online \<notin> {None, Some []}"
    by (simp add: online_def)
  have 4: "readFromCache (CACHE_TTL default_config) (now1 online) Map.empty ''USD'' = (None, Map.empty)"
    by (simp add: readFromCache_def)
  have 5: "\<not> usable None ''GBP''"
    by (simp add: usable_def)
  have 6: "fetchRates default_config (upstream online) = (Inr table_USD, [UpstreamCall 0])"
    by (simp add: fetch_eval default_config_def online_def table_USD_def)
  have 7: "\<not> typeof_number (jsprop (jsprop table_USD ''conversion_rates'') ''GBP'')"
    by (simp add: table_USD_def)
  from pair_not_available_is_terminal [OF 1 2 3 4 5 6 7] 1 2 3 4 5 6 7
  show ?thesis
    by (simp add: online_def writeToCache_def getCacheKey_def)
qed

text \<open>
  C1, as amended. For every request that passes the method check (a GET, or no method)
  and whose query passes validation, the handler answers with status 200, success and a
  numeric rate from one of the four sources, unless the upstream fetch succeeded with a
  table that lacks a numeric rate for the target, which gives the pair-not-available
  failure. Without a credential the answer is the static fallback rate; whenever
  \<^verbatim>\<open>fetchRates\<close> fails, whatever the error, the answer is still a success, from the
  cache or the static fallback.
\<close>

theorem validated_get_request_is_answered:
  assumes "\<not> method_not_allowed req"
    and "validateAndNormalizeQuery (req_query req) = Valid f t a"
    and "handler cfg w req c = (res, c', evs)"
  shows "((res_status res = 200 \<and> map_of (res_body res) ''success'' = Some (JBool True) \<and>
           (\<exists>x. map_of (res_body res) ''rate'' = Some (JNum x)) \<and>
           (\<exists>s. map_of (res_body res) ''source'' = Some (JStr s) \<and>
                s \<in> {''upstream'', ''cache'', ''cache-fallback'', ''fallback''}))
          \<or> (res = failure 400 (PAIR_UNAVAILABLE f t) \<and>
              (\<exists>d. fst (fetchRates cfg (upstream w)) = Inr d \<and>
                   \<not> typeof_number (jsprop (jsprop d ''conversion_rates'') t))))
       \<and> (apiKey w \<in> {None, Some []} \<longrightarrow>
            res_status res = 200 \<and> map_of (res_body res) ''success'' = Some (JBool True) \<and>
            map_of (res_body res) ''rate'' = Some (JNum (rate (getFallbackRate (now0 w) f t))) \<and>
            map_of (res_body res) ''source'' = Some (JStr ''fallback''))
       \<and> (\<forall>err. fst (fetchRates cfg (upstream w)) = Inl err \<longrightarrow>
            res_status res = 200 \<and> map_of (res_body res) ''success'' = Some (JBool True) \<and>
            (\<exists>x. map_of (res_body res) ''rate'' = Some (JNum x)) \<and>
            (\<exists>s. map_of (res_body res) ''source'' = Some (JStr s) \<and>
                 s \<in> {''cache'', ''cache-fallback'', ''fallback''}))"
  using assms
proof (cases rule: handler_paths)
  case no_key
  then show ?thesis by (simp add: from_fallback_def success_def)
next
  case (cache cached c1)
  from usable_rate [OF cache(3), of a f "''cache''"] cache show ?thesis
    by (simp add: from_cache_def success_def Let_def)
next
  case (upstream cached c1 d fevs)
  from typeof_numberE [OF upstream(5)] upstream show ?thesis
    by (auto simp: success_def)
next
  case (pair cached c1 d fevs)
  then show ?thesis by (auto simp: failure_def)
next
  case (cache_fallback cached c1 err fevs cached2 c3)
  from usable_rate [OF cache_fallback(6), of a f "''cache-fallback''"] cache_fallback
  show ?thesis
    by (simp add: from_cache_def success_def Let_def)
next
  case (fallback cached c1 err fevs cached2 c3)
  then show ?thesis by (simp add: from_fallback_def success_def)
qed

theorem validated_get_request_is_answered_witness:
  "\<not> method_not_allowed (get_request usd_eur_100)
   \<and> validateAndNormalizeQuery (req_query (get_request usd_eur_100)) = Valid ''USD'' ''EUR'' (Some 100)
   \<and> fst (fetchRates default_config (upstream offline)) = Inl timed_out
   \<and> (\<exists>c' evs. handler default_config offline (get_request usd_eur_100) Map.empty =
        (\<lparr>res_status = 200,
          res_body = [(''success'', JBool True), (''rate'', JNum 0.85),
                      (''convertedAmount'', JNum 85), (''from'', JStr ''USD''),
                      (''to'', JStr ''EUR''), (''lastUpdated'', JIso 1000),
                      (''source'', JStr ''fallback'')]\<rparr>, c', evs))
   \<and> apiKey no_key \<in> {None, Some []}
   \<and> (\<exists>res c' evs. handler default_config no_key (get_request usd_eur_100) Map.empty =
        (res, c', evs) \<and> res_status res = 200 \<and>
        map_of (res_body res) ''success'' = Some (JBool True) \<and>
        map_of (res_body res) ''rate'' = Some (JNum 0.85) \<and>
        map_of (res_body res) ''source'' = Some (JStr ''fallback''))"
proof -
  have 1: "\<not> method_not_allowed (get_request usd_eur_100)"
    by (simp add: method_not_allowed_def get_request_def toUpperCase_def upper_char_def)
  have 2: "validateAndNormalizeQuery (req_query (get_request usd_eur_100)) =
             Valid ''USD'' ''EUR'' (Some 100)"
    by (simp add: validate_eval get_request_def usd_eur_100_def)
  have 3: "fst (fetchRates default_config (upstream offline)) = Inl timed_out"
    by (simp add: fetch_eval default_config_def offline_def timed_out_def)
  obtain res c' evs where
    h: "handler default_config offline (get_request usd_eur_100) Map.empty = (res, c', evs)"
    by (cases "handler default_config offline (get_request usd_eur_100) Map.empty") auto
  have r: "res = \<lparr>res_status = 200,
          res_body = [(''success'', JBool True), (''rate'', JNum 0.85),
                      (''convertedAmount'', JNum 85), (''from'', JStr ''USD''),
                      (''to'', JStr ''EUR''), (''lastUpdated'', JIso 1000),
                      (''source'', JStr ''fallback'')]\<rparr>"
    using h
    by (simp add: handler_eval validate_eval fetch_eval sample_defs)
  from validated_get_request_is_answered [OF 1 2 h, THEN conjunct2, THEN conjunct2,
      THEN spec, THEN mp, OF 3]
  have s1: "res_status res = 200" by (rule conjunct1)
  from h r have E1: "\<exists>c' evs. handler default_config offline (get_request usd_eur_100) Map.empty =
        (\<lparr>res_status = 200,
          res_body = [(''success'', JBool True), (''rate'', JNum 0.85),
                      (''convertedAmount'', JNum 85), (''from'', JStr ''USD''),
                      (''to'', JStr ''EUR''), (''lastUpdated'', JIso 1000),
                      (''source'', JStr ''fallback'')]\<rparr>, c', evs)"
    by blast
  have 4: "apiKey no_key \<in> {None, Some []}"
    by (simp add: no_key_def)
  obtain res2 c2 evs2 where
    h2: "handler default_config no_key (get_request usd_eur_100) Map.empty = (res2, c2, evs2)"
    by (cases "handler default_config no_key (get_request usd_eur_100) Map.empty") auto
  have fb: "rate (getFallbackRate (now0 no_key) ''USD'' ''EUR'') = 0.85"
    by (simp add: getFallbackRate_def FALLBACK_RATES_def Let_def)
  from validated_get_request_is_answered [OF 1 2 h2, THEN conjunct2, THEN conjunct1, THEN mp,
      OF 4] fb
  have "res_status res2 = 200 \<and>
        map_of (res_body res2) ''success'' = Some (JBool True) \<and>
        map_of (res_body res2) ''rate'' = Some (JNum 0.85) \<and>
        map_of (res_body res2) ''source'' = Some (JStr ''fallback'')"
    by simp
  with h2 have E2: "\<exists>res c' evs. handler default_config no_key (get_request usd_eur_100) Map.empty =
        (res, c', evs) \<and> res_status res = 200 \<and>
        map_of (res_body res) ''success'' = Some (JBool True) \<and>
        map_of (res_body res) ''rate'' = Some (JNum 0.85) \<and>
        map_of (res_body res) ''source'' = Some (JStr ''fallback'')"
    by blast
  show ?thesis
    by (intro conjI) (fact 1 2 3 E1 4 E2)+
qed

text \<open>
  C1, as stated, fails: the claim allows only validation errors and the
  pair-not-available error as failures of a request whose query is valid. A POST request
  with a valid query is refused with status 405 before the query is looked at.
\<close>

theorem non_get_request_is_refused:
  "validateAndNormalizeQuery (req_query (post_request usd_eur_100)) = Valid ''USD'' ''EUR'' (Some 100)
   \<and> handler default_config online (post_request usd_eur_100) Map.empty =
       (\<lparr>res_status = 405,
         res_body = [(''success'', JBool False),
                     (''error'', JStr ''Method Not Allowed. Use GET.'')]\<rparr>, Map.empty, [])"
  by (simp add: handler_eval validate_eval sample_defs)

text \<open>
  C9. Every response whose source is the static fallback comes from a valid request and
  has exactly the fields success, rate, convertedAmount, from, to, lastUpdated and
  source, none of them undefined: the \<open>defaulted\<close> flag of the fallback rate is not among
  them. The last event of such a run is the warning whose field \<open>fallbackDefaulted\<close>
  carries that flag.
\<close>

theorem fallback_flag_is_logged_not_sent:
  assumes "handler cfg w req c = (res, c', evs)"
    and "map_of (res_body res) ''source'' = Some (JStr ''fallback'')"
  shows "\<exists>f t a. validateAndNormalizeQuery (req_query req) = Valid f t a
     \<and> res_body res =
         [(''success'', JBool True),
          (''rate'', JNum (rate (getFallbackRate (now0 w) f t))),
          (''convertedAmount'', convertedAmount a (rate (getFallbackRate (now0 w) f t))),
          (''from'', JStr f), (''to'', JStr t),
          (''lastUpdated'', JIso (now0 w)), (''source'', JStr ''fallback'')]
     \<and> map fst (res_body res) =
         [''success'', ''rate'', ''convertedAmount'', ''from'', ''to'', ''lastUpdated'', ''source'']
     \<and> (\<exists>msg fields. evs \<noteq> [] \<and> last evs = Console ''warn'' msg fields \<and>
           map_of fields ''fallbackDefaulted'' =
             Some (JBool (defaulted (getFallbackRate (now0 w) f t))))"
proof (cases "method_not_allowed req")
  case True
  from handler_405 [OF True, of cfg w c] assms show ?thesis
    by (simp add: failure_def)
next
  case meth: False
  show ?thesis
  proof (cases "validateAndNormalizeQuery (req_query req)")
    case (Invalid e)
    from handler_invalid [OF meth Invalid, of cfg w c] assms show ?thesis
      by (simp add: failure_def)
  next
    case (Valid f t a)
    have iso: "lastUpdated (getFallbackRate (now0 w) f t) = JIso (now0 w)"
      by (simp add: getFallbackRate_def Let_def)
    from meth Valid assms(1) show ?thesis
    proof (cases rule: handler_paths)
      case no_key
      with Valid iso show ?thesis by (simp add: from_fallback_def success_def)
    next
      case (cache cached c1)
      with assms(2) show ?thesis by (simp add: from_cache_def success_def Let_def)
    next
      case (upstream cached c1 d fevs)
      with assms(2) show ?thesis by (simp add: success_def)
    next
      case (pair cached c1 d fevs)
      with assms(2) show ?thesis by (simp add: failure_def)
    next
      case (cache_fallback cached c1 err fevs cached2 c3)
      with assms(2) show ?thesis by (simp add: from_cache_def success_def Let_def)
    next
      case (fallback cached c1 err fevs cached2 c3)
      with Valid iso show ?thesis by (simp add: from_fallback_def success_def)
    qed
  qed
qed

theorem fallback_flag_is_logged_not_sent_witness:
  "handler default_config no_key (get_request usd_usd_100) Map.empty =
     (\<lparr>res_status = 200,
       res_body = [(''success'', JBool True), (''rate'', JNum 1),
                   (''convertedAmount'', JNum 100), (''from'', JStr ''USD''),
                   (''to'', JStr ''USD''), (''lastUpdated'', JIso 1000),
                   (''source'', JStr ''fallback'')]\<rparr>,
      Map.empty,
      [Console ''warn''
         ''Missing EXCHANGE_RATE_API_KEY environment variable; using fallback data''
         [(''fallbackDefaulted'', JBool True)]])
   \<and> defaulted (getFallbackRate 1000 ''USD'' ''USD'')"
proof -
  have h: "handler default_config no_key (get_request usd_usd_100) Map.empty =
     (\<lparr>res_status = 200,
       res_body = [(''success'', JBool True), (''rate'', JNum 1),
                   (''convertedAmount'', JNum 100), (''from'', JStr ''USD''),
                   (''to'', JStr ''USD''), (''lastUpdated'', JIso 1000),
                   (''source'', JStr ''fallback'')]\<rparr>,
      Map.empty,
      [Console ''warn''
         ''Missing EXCHANGE_RATE_API_KEY environment variable; using fallback data''
         [(''fallbackDefaulted'', JBool True)]])"
    by (simp add: handler_eval validate_eval sample_defs)
  have v: "validateAndNormalizeQuery (req_query (get_request usd_usd_100)) =
             Valid ''USD'' ''USD'' (Some 100)"
    by (simp add: validate_eval sample_defs)
  from fallback_flag_is_logged_not_sent [OF h] v h
  show ?thesis by (simp add: no_key_def)
qed

text \<open>
  C2, as amended. The cache read that follows a failed upstream fetch is the same
  \<^verbatim>\<open>readFromCache\<close> as the first one and applies the TTL check: when the entry of
  the base currency is older than the TTL at that moment, the read removes it and the
  static fallback is served. The source is \<open>cache-fallback\<close> exactly when the entry
  present at that moment is at most TTL old and has a numeric rate for the target, and
  then the rate served is that entry's rate and the slot is not as the first read left
  it: the entry is one that another request stored while the fetch was pending.
\<close>

theorem degraded_read_checks_ttl:
  assumes "\<not> method_not_allowed req"
    and "validateAndNormalizeQuery (req_query req) = Valid f t a"
    and "apiKey w \<notin> {None, Some []}"
    and "readFromCache (CACHE_TTL cfg) (now1 w) c f = (cached, c1)"
    and "\<not> usable cached t"
    and "fst (fetchRates cfg (upstream w)) = Inl err"
    and "handler cfg w req c = (res, c', evs)"
  shows "(\<forall>e. concurrent w c1 (getCacheKey f) = Some e \<and> now2 w - ts e > CACHE_TTL cfg \<longrightarrow>
            map_of (res_body res) ''source'' = Some (JStr ''fallback'') \<and>
            c' (getCacheKey f) = None)
       \<and> (map_of (res_body res) ''source'' = Some (JStr ''cache-fallback'') \<longleftrightarrow>
            (\<exists>e. concurrent w c1 (getCacheKey f) = Some e \<and> now2 w - ts e \<le> CACHE_TTL cfg \<and>
                 usable (Some (data e)) t))
       \<and> (map_of (res_body res) ''source'' = Some (JStr ''cache-fallback'') \<longrightarrow>
            (\<exists>e. concurrent w c1 (getCacheKey f) = Some e \<and>
                 map_of (res_body res) ''rate'' =
                   Some (jsprop (jsprop (data e) ''conversion_rates'') t)) \<and>
            concurrent w c1 (getCacheKey f) \<noteq> c1 (getCacheKey f))"
  using assms(1,2,7)
proof (cases rule: handler_paths)
  case no_key
  with assms(3) show ?thesis by simp
next
  case (cache cached' c1')
  with assms(4,5) show ?thesis by simp
next
  case (upstream cached' c1' d fevs)
  with assms(6) show ?thesis by simp
next
  case (pair cached' c1' d fevs)
  with assms(6) show ?thesis by simp
next
  case (cache_fallback cached' c1' err' fevs cached2 c3)
  with assms(4) have c1: "c1' = c1" by simp
  from cache_fallback(6) obtain d where d: "cached2 = Some d"
    by (auto simp: usable_def split: option.splits)
  with cache_fallback(5) c1 have "fst (readFromCache (CACHE_TTL cfg) (now2 w) (concurrent w c1) f) = Some d"
    by simp
  then obtain e where e: "concurrent w c1 (getCacheKey f) = Some e"
      "now2 w - ts e \<le> CACHE_TTL cfg" "d = data e"
    by (auto simp: read_iff)
  from cache_fallback(6) d e(3) have "usable (Some (data e)) t" by simp
  with miss_leaves_nothing_usable [OF assms(4,5)] e(1)
  have changed: "concurrent w c1 (getCacheKey f) \<noteq> c1 (getCacheKey f)"
    by auto
  from cache_fallback(6,7) d e changed show ?thesis
    by (auto simp: from_cache_def success_def Let_def)
next
  case (fallback cached' c1' err' fevs cached2 c3)
  with assms(4) have c1: "c1' = c1" by simp
  have src: "map_of (res_body res) ''source'' = Some (JStr ''fallback'')"
    using fallback(7) by (simp add: from_fallback_def success_def)
  have none: "c' (getCacheKey f) = None"
    if "concurrent w c1 (getCacheKey f) = Some e" "now2 w - ts e > CACHE_TTL cfg" for e
    using that fallback(5,8) c1 by (auto simp: read_expired)
  have no_fresh: False
    if "concurrent w c1 (getCacheKey f) = Some e" "now2 w - ts e \<le> CACHE_TTL cfg"
       "usable (Some (data e)) t" for e
    using that fallback(5,6) c1 by (auto simp: read_hit)
  from src none no_fresh show ?thesis by auto
qed

theorem degraded_read_checks_ttl_witness:
  "\<not> method_not_allowed (get_request usd_eur_100)
   \<and> validateAndNormalizeQuery (req_query (get_request usd_eur_100)) = Valid ''USD'' ''EUR'' (Some 100)
   \<and> apiKey racing \<notin> {None, Some []}
   \<and> readFromCache 10000 (now1 racing) Map.empty ''USD'' = (None, Map.empty)
   \<and> \<not> usable None ''EUR''
   \<and> fst (fetchRates short_ttl (upstream racing)) = Inl timed_out
   \<and> fst (fetchRates default_config (upstream racing)) = Inl timed_out
   \<and> concurrent racing Map.empty (getCacheKey ''USD'') = Some \<lparr>ts = 2000, data = table_USD\<rparr>
   \<and> now2 racing - 2000 > CACHE_TTL short_ttl
   \<and> now2 racing - 2000 \<le> CACHE_TTL default_config
   \<and> usable (Some table_USD) ''EUR''
   \<and> (\<exists>res c' evs. handler short_ttl racing (get_request usd_eur_100) Map.empty = (res, c', evs)
        \<and> map_of (res_body res) ''source'' = Some (JStr ''fallback'')
        \<and> map_of (res_body res) ''rate'' = Some (JNum 0.85)
        \<and> c' (getCacheKey ''USD'') = None)
   \<and> (\<exists>res c' evs. handler default_config racing (get_request usd_eur_100) Map.empty = (res, c', evs)
        \<and> map_of (res_body res) ''source'' = Some (JStr ''cache-fallback'')
        \<and> map_of (res_body res) ''rate'' = Some (JNum 0.9))"
proof -
  have 1: "\<not> method_not_allowed (get_request usd_eur_100)"
    by (simp add: method_not_allowed_def get_request_def toUpperCase_def upper_char_def)
  have 2: "validateAndNormalizeQuery (req_query (get_request usd_eur_100)) =
             Valid ''USD'' ''EUR'' (Some 100)"
    by (simp add: validate_eval get_request_def usd_eur_100_def)
  have 3: "apiKey racing \<notin> {None, Some []}"
    by (simp add: racing_def)
  have 4: "readFromCache (CACHE_TTL short_ttl) (now1 racing) Map.empty ''USD'' = (None, Map.empty)"
    "readFromCache (CACHE_TTL default_config) (now1 racing) Map.empty ''USD'' = (None, Map.empty)"
    by (simp_all add: readFromCache_def)
  have 5: "\<not> usable None ''EUR''"
    by (simp add: usable_def)
  have 6: "fst (fetchRates short_ttl (upstream racing)) = Inl timed_out"
    "fst (fetchRates default_config (upstream racing)) = Inl timed_out"
    by (simp_all add: fetch_eval short_ttl_def default_config_def racing_def timed_out_def)
  have e: "concurrent racing Map.empty (getCacheKey ''USD'') = Some \<lparr>ts = 2000, data = table_USD\<rparr>"
    by (simp add: racing_def writeToCache_def)
  have age: "now2 racing - 2000 > CACHE_TTL short_ttl" "now2 racing - 2000 \<le> CACHE_TTL default_config"
    by (simp_all add: racing_def short_ttl_def default_config_def)
  have u: "usable (Some table_USD) ''EUR''"
    by (simp add: usable_def table_USD_def)
  obtain res c' evs where
    h: "handler short_ttl racing (get_request usd_eur_100) Map.empty = (res, c', evs)"
    by (cases "handler short_ttl racing (get_request usd_eur_100) Map.empty") auto
  obtain res2 c2 evs2 where
    h2: "handler default_config racing (get_request usd_eur_100) Map.empty = (res2, c2, evs2)"
    by (cases "handler default_config racing (get_request usd_eur_100) Map.empty") auto
  have r: "map_of (res_body res) ''rate'' = Some (JNum 0.85)"
    using h by (auto simp: handler_eval validate_eval fetch_eval sample_defs)
  have r2: "map_of (res_body res2) ''rate'' = Some (JNum 0.9)"
    using h2 by (auto simp: handler_eval validate_eval fetch_eval sample_defs)
  from degraded_read_checks_ttl [OF 1 2 3 4(1) 5 6(1) h] e age(1)
  have a: "map_of (res_body res) ''source'' = Some (JStr ''fallback'')"
    "c' (getCacheKey ''USD'') = None"
    by auto
  from degraded_read_checks_ttl [OF 1 2 3 4(2) 5 6(2) h2] e age(2) u
  have b: "map_of (res_body res2) ''source'' = Some (JStr ''cache-fallback'')"
    by auto
  from 1 2 3 4 5 6 e age u h h2 r r2 a b show ?thesis
    by (simp add: short_ttl_def)
qed

text \<open>
  C2, as stated, fails: the claim lets an entry older than the TTL be served as
  \<open>cache-fallback\<close> after an upstream failure. With a TTL of ten seconds, an entry
  stored by another request at time 2000 that has a rate for EUR is 15200 ms old when
  both attempts have timed out; the handler removes it and serves the static rate.
\<close>

theorem stale_entry_is_not_served:
  "concurrent racing
     (snd (readFromCache (CACHE_TTL short_ttl) (now1 racing) Map.empty ''USD''))
     (getCacheKey ''USD'') = Some \<lparr>ts = 2000, data = table_USD\<rparr>
   \<and> now2 racing - 2000 > CACHE_TTL short_ttl
   \<and> usable (Some table_USD) ''EUR''
   \<and> handler short_ttl racing (get_request usd_eur_100) Map.empty =
       (\<lparr>res_status = 200,
         res_body = [(''success'', JBool True), (''rate'', JNum 0.85),
                     (''convertedAmount'', JNum 85), (''from'', JStr ''USD''),
                     (''to'', JStr ''EUR''), (''lastUpdated'', JIso 1000),
                     (''source'', JStr ''fallback'')]\<rparr>,
        Map.empty,
        [CacheRead ''latest:USD'', UpstreamCall 0, Sleep 200, UpstreamCall 1,
         CacheRead ''latest:USD'',
         Console ''warn'' ''Upstream fetch failed, using fallback data''
           [(''message'', JStr ''This operation was aborted''), (''timeout'', JNum 8000),
            (''fallbackDefaulted'', JBool False)]])"
  by (simp add: handler_eval validate_eval fetch_eval sample_defs)




section \<open>The claims about the validator\<close>




text \<open>
  C10, as amended. For every query whose parameter names are all among from, to and
  amount, and in which from or to is absent or the empty string, validation fails with
  the one message \<^verbatim>\<open>Missing required query parameters "from" and "to".\<close>, and the
  handler answers without reading or writing the cache and without an upstream call.
\<close>

theorem missing_currency_is_rejected:
  assumes "set (map fst (req_query req)) \<subseteq> set ALLOWED_QUERY_PARAMS"
    and "map_of (req_query req) ''from'' \<in> {None, Some []} \<or>
         map_of (req_query req) ''to'' \<in> {None, Some []}"
  shows "validateAndNormalizeQuery (req_query req) =
           Invalid ''Missing required query parameters \"from\" and \"to\".''
     \<and> (\<exists>r evs. handler cfg w req c = (r, c, evs) \<and> filter is_access evs = [] \<and>
           map_of (res_body r) ''success'' = Some (JBool False) \<and>
           (\<not> method_not_allowed req \<longrightarrow>
              r = \<lparr>res_status = 400,
                   res_body = [(''success'', JBool False),
                               (''error'', JStr ''Missing required query parameters \"from\" and \"to\".'')]\<rparr>))"
proof -
  have v: "validateAndNormalizeQuery (req_query req) = Invalid ERR_MISSING"
    using assms by (rule missing_parameters)
  from invalid_query_touches_nothing [OF v, of cfg w c] v show ?thesis
    by (simp add: ERR_MISSING_def failure_def)
qed

theorem missing_currency_is_rejected_witness:
  "set (map fst (req_query (get_request only_to))) \<subseteq> set ALLOWED_QUERY_PARAMS
   \<and> map_of (req_query (get_request only_to)) ''from'' = None
   \<and> \<not> method_not_allowed (get_request only_to)
   \<and> validateAndNormalizeQuery (req_query (get_request only_to)) =
       Invalid ''Missing required query parameters \"from\" and \"to\".''
   \<and> (\<exists>evs. handler default_config online (get_request only_to) (cache_at 0) =
        (\<lparr>res_status = 400,
          res_body = [(''success'', JBool False),
                      (''error'', JStr ''Missing required query parameters \"from\" and \"to\".'')]\<rparr>,
         cache_at 0, evs) \<and> filter is_access evs = [])
   \<and> map_of (req_query (get_request empty_from)) ''from'' = Some []
   \<and> validateAndNormalizeQuery (req_query (get_request empty_from)) =
       Invalid ''Missing required query parameters \"from\" and \"to\".''"
proof -
  have 1: "set (map fst (req_query (get_request only_to))) \<subseteq> set ALLOWED_QUERY_PARAMS"
    by (simp add: get_request_def only_to_def ALLOWED_QUERY_PARAMS_def)
  have 2: "map_of (req_query (get_request only_to)) ''from'' = None"
    by (simp add: get_request_def only_to_def)
  then have 3: "map_of (req_query (get_request only_to)) ''from'' \<in> {None, Some []} \<or>
         map_of (req_query (get_request only_to)) ''to'' \<in> {None, Some []}"
    by simp
  have 4: "\<not> method_not_allowed (get_request only_to)"
    by (simp add: method_not_allowed_def get_request_def toUpperCase_def upper_char_def)
  note T = missing_currency_is_rejected [OF 1 3, of default_config online "cache_at 0"]
  from T have 5: "validateAndNormalizeQuery (req_query (get_request only_to)) =
       Invalid ''Missing required query parameters \"from\" and \"to\".''"
    by (rule conjunct1)
  from T [THEN conjunct2] 4
  have 6: "\<exists>evs. handler default_config online (get_request only_to) (cache_at 0) =
        (\<lparr>res_status = 400,
          res_body = [(''success'', JBool False),
                      (''error'', JStr ''Missing required query parameters \"from\" and \"to\".'')]\<rparr>,
         cache_at 0, evs) \<and> filter is_access evs = []"
    by blast
  have 7: "set (map fst (req_query (get_request empty_from))) \<subseteq> set ALLOWED_QUERY_PARAMS"
    by (simp add: get_request_def empty_from_def ALLOWED_QUERY_PARAMS_def)
  have 8: "map_of (req_query (get_request empty_from)) ''from'' = Some []"
    by (simp add: get_request_def empty_from_def)
  then have "map_of (req_query (get_request empty_from)) ''from'' \<in> {None, Some []} \<or>
         map_of (req_query (get_request empty_from)) ''to'' \<in> {None, Some []}"
    by simp
  from missing_currency_is_rejected [OF 7 this, of default_config online "cache_at 0"]
  have 9: "validateAndNormalizeQuery (req_query (get_request empty_from)) =
       Invalid ''Missing required query parameters \"from\" and \"to\".''"
    by (rule conjunct1)
  show ?thesis
    by (intro conjI) (fact 1 2 4 5 6 8 9)+
qed

text \<open>
  C10, as stated, fails: the claim gives that message to every query without a from.
  The check of the parameter names comes first: a query with a to, no from and a
  parameter \<^verbatim>\<open>callback\<close> is refused with the message about the unexpected parameter.
\<close>

theorem unexpected_parameter_comes_first:
  "map_of to_and_callback ''from'' = None
   \<and> set (map fst to_and_callback) = {''to'', ''callback''}
   \<and> validateAndNormalizeQuery to_and_callback =
       Invalid (''Unexpected parameter '' @ [CHR 0x27] @ ''callback'' @ [CHR 0x27] @ ''.'')
   \<and> validateAndNormalizeQuery to_and_callback \<noteq>
       Invalid ''Missing required query parameters \"from\" and \"to\".''"
  by (simp add: validate_eval ERR_UNEXPECTED_def to_and_callback_def)

end
